theory Spec2Isabelle
  imports Complex_Main "HOL-Library.Word" "HOL-Library.Multiset" "HOL-Library.Char_ord" "HOL-Library.List_Lexorder"
begin

unbundle bit_operations_syntax

section \<open>The data frame\<close>

text \<open>
  \<^verbatim>\<open>app.py\<close> is one script over a pandas data frame read from
  \<^verbatim>\<open>athlete_events.csv\<close>. A data frame is modelled as the list of its rows in index
  order; a row is a record with the thirteen columns the script reads. The columns whose
  dtype the script changes are type parameters, so that the same record serves before and
  after \<^verbatim>\<open>astype\<close> and \<^verbatim>\<open>fillna\<close>:
  \<^item> in the frame as parsed, a cell of \<open>Age\<close>, \<open>Height\<close> or \<open>Weight\<close> is a \<open>reading\<close>
    (below), \<open>Name\<close> and \<open>Medal\<close> are strings or missing (\<open>None\<close> stands for NaN), \<open>ID\<close>
    and \<open>Year\<close> are integers;
  \<^item> in the cleaned frame they are \<^verbatim>\<open>uint8\<close>, \<^verbatim>\<open>uint32\<close> and \<^verbatim>\<open>int16\<close> values and
    plain strings.
  Floating-point numbers are exact rationals: the rounding of binary floating point is
  not modelled. Strings are byte strings (the UTF-8 encoding of the Python string), compared
  bytewise, which is the order Python gives strings.
\<close>

record ('id, 'name, 'num, 'year, 'medal) row =
  ID :: 'id
  Name :: 'name
  Sex :: string
  Age :: 'num
  Height :: 'num
  Weight :: 'num
  NOC :: string
  Games :: string
  Year :: 'year
  Season :: string
  Sport :: string
  Event :: string
  Medal :: 'medal

text \<open>
  A numeric cell as \<^verbatim>\<open>read_csv\<close> parses it: empty (\<open>NaN\<close>), written as an integer
  (\<open>Whole\<close>), or written with a decimal point (\<open>Decimal\<close>). A column of integers only
  has dtype \<^verbatim>\<open>int64\<close>; any other column has dtype \<^verbatim>\<open>float64\<close>, and its integers are
  floats like the rest. \<open>number\<close> is the value of a cell, if it has one.
\<close>

datatype reading = NaN | Whole int | Decimal rat

fun number :: "reading \<Rightarrow> rat option" where
  "number NaN = None"
| "number (Whole k) = Some (of_int k)"
| "number (Decimal x) = Some x"

fun whole :: "reading \<Rightarrow> int option" where
  "whole (Whole k) = Some k"
| "whole _ = None"

type_synonym raw_row = "(int, string option, reading, int, string option) row"
type_synonym typed_row = "(32 word, string option, 8 word, 16 word, string option) row"
type_synonym clean_row = "(32 word, string, 8 word, 16 word, string) row"

datatype error = IntCastingNaNError | ValueError

section \<open>SHA-256 (hashlib.sha256, FIPS 180-4)\<close>

text \<open>
  The digest the script calls, written out so that the cleaning step can be evaluated.
  A 32-bit word is an \<open>int\<close> in \<open>[0, 2^32)\<close> with the wrap-around of addition written
  out; bytes are \<open>int\<close>s in \<open>[0, 256)\<close>. The round constants are the first 32 bits of
  the fractional parts of the cube roots of the first 64 primes, the initial hash value
  those of the square roots of the first 8 primes, both in decimal.
\<close>

type_synonym u32 = int

definition K256 :: "u32 list" where
  "K256 = [
     1116352408, 1899447441, 3049323471, 3921009573, 961987163, 1508970993,
     2453635748, 2870763221, 3624381080, 310598401, 607225278, 1426881987,
     1925078388, 2162078206, 2614888103, 3248222580, 3835390401, 4022224774,
     264347078, 604807628, 770255983, 1249150122, 1555081692, 1996064986,
     2554220882, 2821834349, 2952996808, 3210313671, 3336571891, 3584528711,
     113926993, 338241895, 666307205, 773529912, 1294757372, 1396182291,
     1695183700, 1986661051, 2177026350, 2456956037, 2730485921, 2820302411,
     3259730800, 3345764771, 3516065817, 3600352804, 4094571909, 275423344,
     430227734, 506948616, 659060556, 883997877, 958139571, 1322822218,
     1537002063, 1747873779, 1955562222, 2024104815, 2227730452, 2361852424,
     2428436474, 2756734187, 3204031479, 3329325298]"

definition H256 :: "u32 list" where
  "H256 = [
     1779033703, 3144134277, 1013904242, 2773480762, 1359893119, 2600822924,
     528734635, 1541459225]"

definition add32 :: "u32 \<Rightarrow> u32 \<Rightarrow> u32" where
  "add32 a b = (a + b) mod 4294967296"

definition rotr :: "nat \<Rightarrow> u32 \<Rightarrow> u32" where
  "rotr n x = x div 2 ^ n + (x mod 2 ^ n) * 2 ^ (32 - n)"

definition shr :: "nat \<Rightarrow> u32 \<Rightarrow> u32" where
  "shr n x = x div 2 ^ n"

definition not32 :: "u32 \<Rightarrow> u32" where
  "not32 x = 4294967295 - x"

definition Ch :: "u32 \<Rightarrow> u32 \<Rightarrow> u32 \<Rightarrow> u32" where
  "Ch x y z = (x AND y) XOR (not32 x AND z)"

definition Maj :: "u32 \<Rightarrow> u32 \<Rightarrow> u32 \<Rightarrow> u32" where
  "Maj x y z = (x AND y) XOR (x AND z) XOR (y AND z)"

definition Sigma0 :: "u32 \<Rightarrow> u32" where
  "Sigma0 x = rotr 2 x XOR rotr 13 x XOR rotr 22 x"

definition Sigma1 :: "u32 \<Rightarrow> u32" where
  "Sigma1 x = rotr 6 x XOR rotr 11 x XOR rotr 25 x"

definition sigma0 :: "u32 \<Rightarrow> u32" where
  "sigma0 x = rotr 7 x XOR rotr 18 x XOR shr 3 x"

definition sigma1 :: "u32 \<Rightarrow> u32" where
  "sigma1 x = rotr 17 x XOR rotr 19 x XOR shr 10 x"

text \<open>
  The message schedule, over a sliding window \<open>w\<close> of the last sixteen words: the next
  word is made of the words 2, 7, 15 and 16 places back, which are \<open>w ! 14\<close>, \<open>w ! 9\<close>,
  \<open>w ! 1\<close> and \<open>w ! 0\<close>. \<open>schedule 64\<close> of a block of sixteen words gives the 64 words of
  its rounds.
\<close>

fun schedule :: "nat \<Rightarrow> u32 list \<Rightarrow> u32 list" where
  "schedule 0 w = []"
| "schedule (Suc n) w =
     hd w # schedule n
       (tl w @ [add32 (add32 (add32 (sigma1 (w ! 14)) (w ! 9)) (sigma0 (w ! 1))) (w ! 0)])"

fun sha_round :: "u32 \<times> u32 \<Rightarrow> u32 list \<Rightarrow> u32 list" where
  "sha_round (k, w) [a, b, c, d, e, f, g, h] =
     (let T1 = add32 (add32 (add32 (add32 h (Sigma1 e)) (Ch e f g)) k) w;
          T2 = add32 (Sigma0 a) (Maj a b c)
      in [add32 T1 T2, a, b, c, add32 d T1, e, f, g])"
| "sha_round _ s = s"

definition compress :: "u32 list \<Rightarrow> u32 list \<Rightarrow> u32 list" where
  "compress H block = map2 add32 H (fold sha_round (zip K256 (schedule 64 block)) H)"

fun hash_blocks :: "u32 list \<Rightarrow> u32 list list \<Rightarrow> u32 list" where
  "hash_blocks H [] = H"
| "hash_blocks H (b # bs) = hash_blocks (compress H b) bs"

definition pad :: "int list \<Rightarrow> int list" where
  "pad msg =
     (let l = 8 * int (length msg)
      in msg @ [128] @ replicate ((119 - length msg mod 64) mod 64) 0
           @ map (\<lambda>i. (l div 256 ^ i) mod 256) [7, 6, 5, 4, 3, 2, 1, 0])"

fun be_words :: "int list \<Rightarrow> u32 list" where
  "be_words (a # b # c # d # bs) = (((a * 256 + b) * 256 + c) * 256 + d) # be_words bs"
| "be_words _ = []"

fun blocks :: "u32 list \<Rightarrow> u32 list list" where
  "blocks [] = []"
| "blocks (w # ws) = take 16 (w # ws) # blocks (drop 16 (w # ws))"

definition hex32 :: "u32 \<Rightarrow> string" where
  "hex32 w =
     map (\<lambda>i. ''0123456789abcdef'' ! nat ((w div 16 ^ i) mod 16)) [7, 6, 5, 4, 3, 2, 1, 0]"

definition sha256_hexdigest :: "string \<Rightarrow> string" where
  "sha256_hexdigest s =
     concat (map hex32 (hash_blocks H256 (blocks (be_words (pad (map of_char s))))))"

section \<open>Cleaning (app.py, lines 9 to 33)\<close>

subsection \<open>Median imputation\<close>

text \<open>
  \<^verbatim>\<open>Series.median()\<close> skips the missing entries; of the sorted remaining values it is
  the middle one, or the mean of the two middle ones; it is NaN when nothing remains.
\<close>

definition median :: "rat option list \<Rightarrow> rat option" where
  "median col =
     (let vs = sort (List.map_filter id col); n = length vs
      in if n = 0 then None
         else if odd n then Some (vs ! (n div 2))
         else Some ((vs ! (n div 2 - 1) + vs ! (n div 2)) / 2))"

text \<open>
  \<^verbatim>\<open>fillna\<close> of one cell: a missing cell takes the fill value, a float, and stays
  missing when the fill value is itself NaN; any other cell is kept.
\<close>

definition fillna :: "rat option \<Rightarrow> reading \<Rightarrow> reading" where
  "fillna v x =
     (case x of
        NaN \<Rightarrow> (case v of None \<Rightarrow> NaN | Some m \<Rightarrow> Decimal m)
      | Whole k \<Rightarrow> Whole k
      | Decimal y \<Rightarrow> Decimal y)"

text \<open>
  Lines 12 to 16: the three medians are taken over the whole frame, before any filter.
\<close>

definition fillna_medians :: "raw_row list \<Rightarrow> raw_row list" where
  "fillna_medians df =
     (let age = median (map number (map Age df));
          height = median (map number (map Height df));
          weight = median (map number (map Weight df))
      in map (\<lambda>r. r\<lparr>Age := fillna age (Age r),
                      Height := fillna height (Height r),
                      Weight := fillna weight (Weight r)\<rparr>) df)"

subsection \<open>The dtype casts\<close>

text \<open>
  Lines 19 to 25, the cast of one column to \<^verbatim>\<open>uint8\<close>.
  \<^item> An \<^verbatim>\<open>int64\<close> column (integers only, hence nothing was missing) is cast by numpy
    alone, which keeps the low eight bits of each integer, of a negative one as well.
  \<^item> A \<^verbatim>\<open>float64\<close> column is first checked by pandas: it refuses a column that still
    holds NaN (\<^verbatim>\<open>IntCastingNaNError\<close>), then one that holds a negative value
    (\<^verbatim>\<open>ValueError\<close>). Then numpy converts each float: the fraction is cut off and the low
    eight bits are kept; a float of \<open>2^31\<close> or more does not fit the 32-bit conversion the
    processor makes and comes out as 0.
  The integer columns \<open>ID\<close> and \<open>Year\<close> wrap silently.
\<close>

definition float_to_uint8 :: "rat \<Rightarrow> 8 word" where
  "float_to_uint8 v = (if \<lfloor>v\<rfloor> < 2147483648 then word_of_int \<lfloor>v\<rfloor> else 0)"

definition astype_uint8 :: "reading list \<Rightarrow> error + 8 word list" where
  "astype_uint8 col =
     (case those (map whole col) of
        Some ks \<Rightarrow> Inr (map word_of_int ks)
      | None \<Rightarrow>
          (case those (map number col) of
             None \<Rightarrow> Inl IntCastingNaNError
           | Some vs \<Rightarrow>
               if \<exists>v \<in> set vs. v < 0 then Inl ValueError
               else Inr (map float_to_uint8 vs)))"

definition astype :: "raw_row list \<Rightarrow> error + typed_row list" where
  "astype df =
     (case astype_uint8 (map Age df) of
        Inl e \<Rightarrow> Inl e
      | Inr ages \<Rightarrow>
     (case astype_uint8 (map Height df) of
        Inl e \<Rightarrow> Inl e
      | Inr heights \<Rightarrow>
     (case astype_uint8 (map Weight df) of
        Inl e \<Rightarrow> Inl e
      | Inr weights \<Rightarrow>
          Inr (map (\<lambda>(r, a, h, w).
                 \<lparr>ID = word_of_int (ID r), Name = Name r, Sex = Sex r,
                  Age = a, Height = h, Weight = w,
                  NOC = NOC r, Games = Games r, Year = word_of_int (Year r),
                  Season = Season r, Sport = Sport r, Event = Event r, Medal = Medal r\<rparr>)
               (zip df (zip ages (zip heights weights)))))))"

subsection \<open>De-identification and the medal sentinel\<close>

text \<open>Line 29: \<^verbatim>\<open>str(x)\<close> of a missing name is the string \<^verbatim>\<open>nan\<close>.\<close>

definition str :: "string option \<Rightarrow> string" where
  "str x = (case x of None \<Rightarrow> ''nan'' | Some s \<Rightarrow> s)"

definition anonymise :: "string option \<Rightarrow> string" where
  "anonymise x = sha256_hexdigest (str x)"

text \<open>Line 33.\<close>

definition fillna_medal :: "string option \<Rightarrow> string" where
  "fillna_medal x = (case x of None \<Rightarrow> ''None'' | Some m \<Rightarrow> m)"

definition finish_row :: "typed_row \<Rightarrow> clean_row" where
  "finish_row r =
     \<lparr>ID = ID r, Name = anonymise (Name r), Sex = Sex r,
      Age = Age r, Height = Height r, Weight = Weight r,
      NOC = NOC r, Games = Games r, Year = Year r,
      Season = Season r, Sport = Sport r, Event = Event r, Medal = fillna_medal (Medal r)\<rparr>"

text \<open>
  The whole cleaning step, in the order of the script: impute, cast, anonymise, fill the
  medal. An exception of the cast ends the script, so nothing is built after it.
\<close>

definition clean :: "raw_row list \<Rightarrow> error + clean_row list" where
  "clean df =
     (case astype (fillna_medians df) of
        Inl e \<Rightarrow> Inl e
      | Inr typed \<Rightarrow> Inr (map finish_row typed))"

text \<open>
  Running lines 12 to 33 again on the cleaned frame reads the cleaned columns as values:
  the \<^verbatim>\<open>uint8\<close> cells as integers, the strings as present.
\<close>

definition as_raw :: "clean_row \<Rightarrow> raw_row" where
  "as_raw r =
     \<lparr>ID = uint (ID r), Name = Some (Name r), Sex = Sex r,
      Age = Whole (uint (Age r)), Height = Whole (uint (Height r)),
      Weight = Whole (uint (Weight r)),
      NOC = NOC r, Games = Games r, Year = sint (Year r),
      Season = Season r, Sport = Sport r, Event = Event r, Medal = Some (Medal r)\<rparr>"

section \<open>The pandas operations the derived tables use\<close>

text \<open>
  \<^verbatim>\<open>drop_duplicates(subset=...)\<close> keeps, in frame order, each row whose key no earlier row
  has; \<open>seen\<close> holds the keys met so far.
\<close>

fun drop_duplicates_from :: "'k list \<Rightarrow> ('a \<Rightarrow> 'k) \<Rightarrow> 'a list \<Rightarrow> 'a list" where
  "drop_duplicates_from seen key [] = []"
| "drop_duplicates_from seen key (r # rs) =
     (if key r \<in> set seen then drop_duplicates_from seen key rs
      else r # drop_duplicates_from (key r # seen) key rs)"

definition drop_duplicates :: "('a \<Rightarrow> 'k) \<Rightarrow> 'a list \<Rightarrow> 'a list" where
  "drop_duplicates key rs = drop_duplicates_from [] key rs"

text \<open>
  \<^verbatim>\<open>groupby(key)[col].count()\<close>: one entry per key, the keys in ascending order
  (\<^verbatim>\<open>sort=True\<close> is the default of \<^verbatim>\<open>groupby\<close>), each with the number of its rows.
  The counted columns are never missing in the cleaned frame.
\<close>

definition groupby_count :: "('a \<Rightarrow> string) \<Rightarrow> 'a list \<Rightarrow> (string \<times> nat) list" where
  "groupby_count key rs =
     map (\<lambda>k. (k, length (filter (\<lambda>r. key r = k) rs))) (sort (remdups (map key rs)))"

text \<open>
  \<^verbatim>\<open>sort_values(ascending=False)\<close>: pandas reverses the values, sorts them ascending and
  reverses the outcome. The sort is numpy's \<^verbatim>\<open>quicksort\<close>, which promises nothing about
  the order of equal values. The model sorts with a sort that keeps that order; where
  counts are tied, the order of the tied keys in the model may therefore differ from the
  one the code leaves. What is proved of the ranking below holds for every sort that
  orders by count, whatever it does with ties.
\<close>

definition sort_values_desc :: "('k \<times> nat) list \<Rightarrow> ('k \<times> nat) list" where
  "sort_values_desc tbl = rev (sort_key snd (rev tbl))"

definition head :: "nat \<Rightarrow> 'a list \<Rightarrow> 'a list" where
  "head n tbl = take n tbl"

text \<open>
  \<^verbatim>\<open>pivot_table(index="Year", columns="Medal", values="ID", aggfunc="count",
  fill_value=0)\<close>: the rows are the years that occur, ascending (as signed 16-bit
  numbers); the columns are the medal values that occur, ascending; a cell holds the
  number of rows of that year and medal, 0 where there is none. A table is the list of
  its rows, each the year with its cells by column name; \<open>pivot_columns\<close> are its column
  names, which a table without rows has none of.
\<close>

type_synonym pivot = "(16 word \<times> (string \<times> nat) list) list"

definition pivot_columns :: "clean_row list \<Rightarrow> string list" where
  "pivot_columns rs = sort (remdups (map Medal rs))"

definition pivot_table :: "clean_row list \<Rightarrow> pivot" where
  "pivot_table rs =
     (let cols = pivot_columns rs
      in map (\<lambda>y. (y, map (\<lambda>c. (c, length (filter (\<lambda>r. Year r = y \<and> Medal r = c) rs))) cols))
           (sort_key sint (remdups (map Year rs))))"

text \<open>Reading a cell by year and column name; \<open>None\<close> where the table has no such cell.\<close>

definition cell :: "pivot \<Rightarrow> 16 word \<Rightarrow> string \<Rightarrow> nat option" where
  "cell tbl y c = (case map_of tbl y of None \<Rightarrow> None | Some cells \<Rightarrow> map_of cells c)"

text \<open>Assigning a column: in place when the name exists, appended otherwise.\<close>

fun set_column :: "string \<Rightarrow> nat \<Rightarrow> (string \<times> nat) list \<Rightarrow> (string \<times> nat) list" where
  "set_column c v [] = [(c, v)]"
| "set_column c v ((c', v') # cells) =
     (if c' = c then (c, v) # cells else (c', v') # set_column c v cells)"

text \<open>
  \<^verbatim>\<open>groupby("Group")["Age"].mean()\<close> and \<^verbatim>\<open>round(1)\<close>. numpy rounds to one decimal
  by scaling by ten, rounding to the nearest integer with halves going to the even
  neighbour, and scaling back.
\<close>

definition mean :: "8 word list \<Rightarrow> rat" where
  "mean ages = of_nat (sum_list (map unat ages)) / of_nat (length ages)"

definition groupby_mean :: "(string \<times> 8 word) list \<Rightarrow> (string \<times> rat) list" where
  "groupby_mean rows =
     map (\<lambda>g. (g, mean (map snd (filter (\<lambda>row. fst row = g) rows))))
       (sort (remdups (map fst rows)))"

definition rint :: "rat \<Rightarrow> int" where
  "rint x =
     (let n = \<lfloor>x\<rfloor>; d = x - of_int n
      in if d < 1 / 2 then n
         else if 1 / 2 < d then n + 1
         else if even n then n else n + 1)"

definition round1 :: "rat \<Rightarrow> rat" where
  "round1 x = of_int (rint (x * 10)) / 10"

section \<open>The derived tables (app.py, lines 36 to 284)\<close>

text \<open>
  Each table the script computes is a function of the cleaned frame; the script as a
  whole, with the one chart call that can refuse its table, follows them.
\<close>

definition ita :: "clean_row list \<Rightarrow> clean_row list" where
  "ita df = filter (\<lambda>r. NOC r = ''ITA'') df"

text \<open>
  The medal deduplication, written five times in the script: mask the rows without a
  medal, then keep one row per games, event and medal.
\<close>

definition dedupMedals :: "clean_row list \<Rightarrow> clean_row list" where
  "dedupMedals rs =
     drop_duplicates (\<lambda>r. (Games r, Event r, Medal r)) (filter (\<lambda>r. Medal r \<noteq> ''None'') rs)"

text \<open>The participant deduplication: one row per games and subject.\<close>

definition dedupParticipants :: "clean_row list \<Rightarrow> clean_row list" where
  "dedupParticipants rs = drop_duplicates (\<lambda>r. (Games r, ID r)) rs"

text \<open>The ranking: count per key, then sort descending by count.\<close>

definition groupCount :: "('a \<Rightarrow> string) \<Rightarrow> 'a list \<Rightarrow> (string \<times> nat) list" where
  "groupCount key rs = sort_values_desc (groupby_count key rs)"

definition ita_medals_unique :: "clean_row list \<Rightarrow> clean_row list" where
  "ita_medals_unique df = dedupMedals (ita df)"

definition medals_by_sport :: "clean_row list \<Rightarrow> (string \<times> nat) list" where
  "medals_by_sport df = groupCount Sport (ita_medals_unique df)"

definition participants_by_sport :: "clean_row list \<Rightarrow> (string \<times> nat) list" where
  "participants_by_sport df = groupCount Sport (dedupParticipants (ita df))"

definition medals_by_games :: "string \<Rightarrow> clean_row list \<Rightarrow> (string \<times> nat) list" where
  "medals_by_games season df =
     groupby_count Games
       (drop_duplicates (\<lambda>r. (Games r, Event r, Medal r))
          (filter (\<lambda>r. Medal r \<noteq> ''None'' \<and> Season r = season) (ita df)))"

definition participants_by_games :: "string \<Rightarrow> clean_row list \<Rightarrow> (string \<times> nat) list" where
  "participants_by_games season df =
     groupby_count Games (dedupParticipants (filter (\<lambda>r. Season r = season) (ita df)))"

definition fencing :: "clean_row list \<Rightarrow> clean_row list" where
  "fencing df = filter (\<lambda>r. Sport r = ''Fencing'') (ita df)"

definition fencing_unique_medals :: "clean_row list \<Rightarrow> clean_row list" where
  "fencing_unique_medals df = dedupMedals (fencing df)"

definition medals_by_type :: "clean_row list \<Rightarrow> pivot" where
  "medals_by_type df = pivot_table (fencing_unique_medals df)"

text \<open>
  Lines 211 to 215: the \<open>Total\<close> column sums those of the columns \<open>Gold\<close>, \<open>Silver\<close> and
  \<open>Bronze\<close> that the table has.
\<close>

definition with_total :: "pivot \<Rightarrow> pivot" where
  "with_total tbl =
     map (\<lambda>(y, cells).
            (y, set_column ''Total''
                  (sum_list (map snd (filter (\<lambda>(c, n). c \<in> set [''Gold'', ''Silver'', ''Bronze'']) cells)))
                  cells))
       tbl"

definition pivotByYearAndMedalTier :: "clean_row list \<Rightarrow> pivot" where
  "pivotByYearAndMedalTier rs = with_total (pivot_table rs)"

definition medals_by_event :: "clean_row list \<Rightarrow> (string \<times> nat) list" where
  "medals_by_event df = groupCount Event (fencing_unique_medals df)"

definition medals_country :: "clean_row list \<Rightarrow> (string \<times> nat) list" where
  "medals_country df =
     groupCount NOC (dedupMedals (filter (\<lambda>r. Sport r = ''Fencing'') df))"

text \<open>
  Lines 271 to 284: the rows of Italy, labelled by group, the fencers first; then the
  mean age of each group, rounded.
\<close>

definition age_compare :: "clean_row list \<Rightarrow> (string \<times> 8 word) list" where
  "age_compare df =
     map (\<lambda>r. (''Fencing'', Age r)) (filter (\<lambda>r. Sport r = ''Fencing'') (ita df))
       @ map (\<lambda>r. (''Other sports'', Age r)) (filter (\<lambda>r. Sport r \<noteq> ''Fencing'') (ita df))"

definition meanByGroup :: "(string \<times> 8 word) list \<Rightarrow> (string \<times> rat) list" where
  "meanByGroup rows = map (\<lambda>(g, m). (g, round1 m)) (groupby_mean rows)"

definition mean_age :: "clean_row list \<Rightarrow> (string \<times> rat) list" where
  "mean_age df = meanByGroup (age_compare df)"

section \<open>The script as a whole\<close>

text \<open>
  What the script hands to its charts and to the page, under the names of the figures:
  the first ten and five of the two rankings by sport, the medals and participants per
  games, the ages and sexes of the Italian rows, the pivot as charted at line 196 and
  with its \<open>Total\<close> column as charted at line 217, the medals by event, the first twenty
  countries, the ages by group and the mean age of each group.
\<close>

record dashboard =
  fig_medals_by_sport :: "(string \<times> nat) list"
  fig_participants_by_sport :: "(string \<times> nat) list"
  fig_medals_summer :: "(string \<times> nat) list"
  fig_medals_winter :: "(string \<times> nat) list"
  fig_age_hist :: "8 word list"
  fig_sex_pie :: "string list"
  fig_summer_participants :: "(string \<times> nat) list"
  fig_winter_participants :: "(string \<times> nat) list"
  fig_fencing_medal_types :: pivot
  fig_fencing_total_medals :: pivot
  fig_fencing_medals_by_event :: "(string \<times> nat) list"
  fig_fencing_country_medals :: "(string \<times> nat) list"
  fig_age_fencing_vs_others :: "(string \<times> 8 word) list"
  mean_age_items :: "(string \<times> rat) list"

definition figures :: "clean_row list \<Rightarrow> dashboard" where
  "figures df =
     \<lparr>fig_medals_by_sport = head 10 (medals_by_sport df),
      fig_participants_by_sport = head 5 (participants_by_sport df),
      fig_medals_summer = medals_by_games ''Summer'' df,
      fig_medals_winter = medals_by_games ''Winter'' df,
      fig_age_hist = map Age (ita df),
      fig_sex_pie = map Sex (ita df),
      fig_summer_participants = participants_by_games ''Summer'' df,
      fig_winter_participants = participants_by_games ''Winter'' df,
      fig_fencing_medal_types = medals_by_type df,
      fig_fencing_total_medals = pivotByYearAndMedalTier (fencing_unique_medals df),
      fig_fencing_medals_by_event = medals_by_event df,
      fig_fencing_country_medals = head 20 (medals_country df),
      fig_age_fencing_vs_others = age_compare df,
      mean_age_items = mean_age df\<rparr>"

text \<open>
  A plotly express call checks that every column it is told to draw is a column of its
  table, and raises \<^verbatim>\<open>ValueError\<close> otherwise. Every chart but one names columns that its
  table always has. Lines 196 to 199 name \<open>Gold\<close>, \<open>Silver\<close> and \<open>Bronze\<close>, which the
  pivot has only for the medals that occur; so that call is where the script can end
  after the cleaning step. The script cleans the frame once, at its start, and builds
  every table from the cleaned frame.
\<close>

definition script :: "raw_row list \<Rightarrow> error + dashboard" where
  "script raw =
     (case clean raw of
        Inl e \<Rightarrow> Inl e
      | Inr df \<Rightarrow>
          if set [''Gold'', ''Silver'', ''Bronze''] \<subseteq> set (pivot_columns (fencing_unique_medals df))
          then Inr (figures df)
          else Inl ValueError)"

section \<open>The specification's readings, for comparison\<close>

text \<open>
  Written from the specification's words, not from the code: the ranking with ties broken
  by the order in which the keys are first met in the input.
\<close>

definition groupCount_encounter_order :: "('a \<Rightarrow> string) \<Rightarrow> 'a list \<Rightarrow> (string \<times> nat) list" where
  "groupCount_encounter_order key rs =
     rev (sort_key snd (rev
       (map (\<lambda>k. (k, length (filter (\<lambda>r. key r = k) rs)))
          (drop_duplicates (\<lambda>k. k) (map key rs)))))"

text \<open>
  Written from the specification's words, not from the code: rounding to one decimal
  place with halves going away from zero, and the group means rounded so.
\<close>

definition round1_half_away :: "rat \<Rightarrow> rat" where
  "round1_half_away x =
     (if 0 \<le> x then of_int \<lfloor>x * 10 + 1 / 2\<rfloor> / 10 else - of_int \<lfloor>- x * 10 + 1 / 2\<rfloor> / 10)"

definition meanByGroup_half_away :: "(string \<times> 8 word) list \<Rightarrow> (string \<times> rat) list" where
  "meanByGroup_half_away rows = map (\<lambda>(g, m). (g, round1_half_away m)) (groupby_mean rows)"

text \<open>
  Written from the meaning of the word, not from the code: \<open>m\<close> is the median of the
  values \<open>vs\<close> when it is the mean of the lower and the upper middle value in order,
  which are one and the same value when the number of values is odd. The value of rank
  \<open>k\<close> (counted from 0) is the one with at most \<open>k\<close> values below it and more than \<open>k\<close>
  values not above it.
\<close>

definition has_rank :: "rat list \<Rightarrow> nat \<Rightarrow> rat \<Rightarrow> bool" where
  "has_rank vs k x \<longleftrightarrow>
     x \<in> set vs \<and> length (filter (\<lambda>v. v < x) vs) \<le> k \<and> k < length (filter (\<lambda>v. v \<le> x) vs)"

definition is_median :: "rat list \<Rightarrow> rat \<Rightarrow> bool" where
  "is_median vs m \<longleftrightarrow>
     (\<exists>lo hi. has_rank vs ((length vs - 1) div 2) lo \<and> has_rank vs (length vs div 2) hi
        \<and> m = (lo + hi) / 2)"

section \<open>Notions used in the statements\<close>

text \<open>A column of integers only: the one \<^verbatim>\<open>read_csv\<close> gives dtype \<^verbatim>\<open>int64\<close>.\<close>

definition is_int64 :: "reading list \<Rightarrow> bool" where
  "is_int64 col \<longleftrightarrow> list_all (\<lambda>x. whole x \<noteq> None) col"

text \<open>
  \<open>w\<close> is what the cleaning step leaves of the cell \<open>x\<close> of the column \<open>col\<close>: the cell, or
  the median of the column where the cell was empty, is a number \<open>a\<close>; \<open>w\<close> is its cast
  to eight bits (of a float column only when nothing in it is negative); and whenever
  \<open>a\<close> lies between 0 and 256, \<open>w\<close> is \<open>a\<close> with its fraction cut off.
\<close>

definition truncated_uint8 :: "reading list \<Rightarrow> reading \<Rightarrow> 8 word \<Rightarrow> bool" where
  "truncated_uint8 col x w \<longleftrightarrow>
     (\<exists>a. number (fillna (median (map number col)) x) = Some a \<and>
          w = (if is_int64 col then word_of_int \<lfloor>a\<rfloor> else float_to_uint8 a) \<and>
          (is_int64 col \<or> 0 \<le> a) \<and>
          (0 \<le> a \<and> a < 256 \<longrightarrow> uint w = \<lfloor>a\<rfloor>))"

text \<open>The present values of a column, in frame order.\<close>

definition present :: "reading list \<Rightarrow> rat list" where
  "present col = List.map_filter number col"

section \<open>Example frames\<close>

text \<open>
  The end-to-end example: three Italian fencers of one team final, each with the gold
  medal of the same event, as parsed and as cleaned.
\<close>

definition team_final_raw :: "raw_row list" where
  "team_final_raw =
     [\<lparr>ID = 101, Name = Some ''a'', Sex = ''M'', Age = Whole 24, Height = Whole 180,
       Weight = Whole 75, NOC = ''ITA'', Games = ''2004 Summer'', Year = 2004,
       Season = ''Summer'', Sport = ''Fencing'', Event = ''Foil Individual'',
       Medal = Some ''Gold''\<rparr>,
      \<lparr>ID = 102, Name = Some ''abc'', Sex = ''M'', Age = Whole 27, Height = Whole 184,
       Weight = Whole 80, NOC = ''ITA'', Games = ''2004 Summer'', Year = 2004,
       Season = ''Summer'', Sport = ''Fencing'', Event = ''Foil Individual'',
       Medal = Some ''Gold''\<rparr>,
      \<lparr>ID = 103, Name = None, Sex = ''M'', Age = Whole 31, Height = Whole 178,
       Weight = Whole 72, NOC = ''ITA'', Games = ''2004 Summer'', Year = 2004,
       Season = ''Summer'', Sport = ''Fencing'', Event = ''Foil Individual'',
       Medal = Some ''Gold''\<rparr>]"

definition team_final :: "clean_row list" where
  "team_final =
     [\<lparr>ID = 101, Name = ''ca978112ca1bbdcafac231b39a23dc4da786eff8147c4e72b9807785afee48bb'',
       Sex = ''M'', Age = 24, Height = 180, Weight = 75, NOC = ''ITA'',
       Games = ''2004 Summer'', Year = 2004, Season = ''Summer'', Sport = ''Fencing'',
       Event = ''Foil Individual'', Medal = ''Gold''\<rparr>,
      \<lparr>ID = 102, Name = ''ba7816bf8f01cfea414140de5dae2223b00361a396177a9cb410ff61f20015ad'',
       Sex = ''M'', Age = 27, Height = 184, Weight = 80, NOC = ''ITA'',
       Games = ''2004 Summer'', Year = 2004, Season = ''Summer'', Sport = ''Fencing'',
       Event = ''Foil Individual'', Medal = ''Gold''\<rparr>,
      \<lparr>ID = 103, Name = ''9b2d5b4678781e53038e91ea5324530a03f27dc1d0e5f6c9bc9d493a23be9de0'',
       Sex = ''M'', Age = 31, Height = 178, Weight = 72, NOC = ''ITA'',
       Games = ''2004 Summer'', Year = 2004, Season = ''Summer'', Sport = ''Fencing'',
       Event = ''Foil Individual'', Medal = ''Gold''\<rparr>]"

text \<open>One fencer in two events of one games, and in a later games.\<close>

definition two_events :: "clean_row list" where
  "two_events =
     [\<lparr>ID = 7, Name = ''ca978112ca1bbdcafac231b39a23dc4da786eff8147c4e72b9807785afee48bb'',
       Sex = ''F'', Age = 22, Height = 170, Weight = 60, NOC = ''ITA'',
       Games = ''1996 Summer'', Year = 1996, Season = ''Summer'', Sport = ''Fencing'',
       Event = ''Foil Individual'', Medal = ''None''\<rparr>,
      \<lparr>ID = 7, Name = ''ca978112ca1bbdcafac231b39a23dc4da786eff8147c4e72b9807785afee48bb'',
       Sex = ''F'', Age = 22, Height = 170, Weight = 60, NOC = ''ITA'',
       Games = ''1996 Summer'', Year = 1996, Season = ''Summer'', Sport = ''Fencing'',
       Event = ''Foil Team'', Medal = ''Gold''\<rparr>,
      \<lparr>ID = 7, Name = ''ca978112ca1bbdcafac231b39a23dc4da786eff8147c4e72b9807785afee48bb'',
       Sex = ''F'', Age = 26, Height = 170, Weight = 60, NOC = ''ITA'',
       Games = ''2000 Summer'', Year = 2000, Season = ''Summer'', Sport = ''Fencing'',
       Event = ''Foil Team'', Medal = ''Gold''\<rparr>]"

text \<open>Two sports with one medal each, the later one in the alphabet met first.\<close>

definition rowing_boxing :: "clean_row list" where
  "rowing_boxing =
     [\<lparr>ID = 11, Name = ''ca978112ca1bbdcafac231b39a23dc4da786eff8147c4e72b9807785afee48bb'',
       Sex = ''M'', Age = 25, Height = 190, Weight = 88, NOC = ''ITA'',
       Games = ''1988 Summer'', Year = 1988, Season = ''Summer'', Sport = ''Rowing'',
       Event = ''Quadruple Sculls'', Medal = ''Gold''\<rparr>,
      \<lparr>ID = 12, Name = ''ba7816bf8f01cfea414140de5dae2223b00361a396177a9cb410ff61f20015ad'',
       Sex = ''M'', Age = 23, Height = 172, Weight = 57, NOC = ''ITA'',
       Games = ''1988 Summer'', Year = 1988, Season = ''Summer'', Sport = ''Boxing'',
       Event = ''Featherweight'', Medal = ''Gold''\<rparr>]"

text \<open>
  An Italian fencer without a medal and a French one with gold, as parsed and as
  cleaned.
\<close>

definition no_medals_raw :: "raw_row list" where
  "no_medals_raw =
     [\<lparr>ID = 21, Name = Some ''a'', Sex = ''F'', Age = Whole 19, Height = Whole 165,
       Weight = Whole 55, NOC = ''ITA'', Games = ''1992 Summer'', Year = 1992,
       Season = ''Summer'', Sport = ''Fencing'', Event = ''Foil Individual'', Medal = None\<rparr>,
      \<lparr>ID = 22, Name = Some ''abc'', Sex = ''M'', Age = Whole 30, Height = Whole 181,
       Weight = Whole 77, NOC = ''FRA'', Games = ''1992 Summer'', Year = 1992,
       Season = ''Summer'', Sport = ''Fencing'', Event = ''Foil Individual'',
       Medal = Some ''Gold''\<rparr>]"

definition no_medals :: "clean_row list" where
  "no_medals =
     [\<lparr>ID = 21, Name = ''ca978112ca1bbdcafac231b39a23dc4da786eff8147c4e72b9807785afee48bb'',
       Sex = ''F'', Age = 19, Height = 165, Weight = 55, NOC = ''ITA'',
       Games = ''1992 Summer'', Year = 1992, Season = ''Summer'', Sport = ''Fencing'',
       Event = ''Foil Individual'', Medal = ''None''\<rparr>,
      \<lparr>ID = 22, Name = ''ba7816bf8f01cfea414140de5dae2223b00361a396177a9cb410ff61f20015ad'',
       Sex = ''M'', Age = 30, Height = 181, Weight = 77, NOC = ''FRA'',
       Games = ''1992 Summer'', Year = 1992, Season = ''Summer'', Sport = ''Fencing'',
       Event = ''Foil Individual'', Medal = ''Gold''\<rparr>]"

text \<open>Four Italian rowers aged 24, 24, 24 and 25: a mean age of 24.25.\<close>

definition quartet :: "clean_row list" where
  "quartet =
     [\<lparr>ID = 41, Name = ''ca978112ca1bbdcafac231b39a23dc4da786eff8147c4e72b9807785afee48bb'',
       Sex = ''M'', Age = 24, Height = 183, Weight = 79, NOC = ''ITA'',
       Games = ''1984 Summer'', Year = 1984, Season = ''Summer'', Sport = ''Rowing'',
       Event = ''Coxless Fours'', Medal = ''None''\<rparr>,
      \<lparr>ID = 42, Name = ''ba7816bf8f01cfea414140de5dae2223b00361a396177a9cb410ff61f20015ad'',
       Sex = ''M'', Age = 24, Height = 188, Weight = 84, NOC = ''ITA'',
       Games = ''1984 Summer'', Year = 1984, Season = ''Summer'', Sport = ''Rowing'',
       Event = ''Coxless Fours'', Medal = ''None''\<rparr>,
      \<lparr>ID = 43, Name = ''9b2d5b4678781e53038e91ea5324530a03f27dc1d0e5f6c9bc9d493a23be9de0'',
       Sex = ''M'', Age = 24, Height = 185, Weight = 80, NOC = ''ITA'',
       Games = ''1984 Summer'', Year = 1984, Season = ''Summer'', Sport = ''Rowing'',
       Event = ''Coxless Fours'', Medal = ''None''\<rparr>,
      \<lparr>ID = 44, Name = ''da3811154d59c4267077ddd8bb768fa9b06399c486e1fc00485116b57c9872f5'',
       Sex = ''M'', Age = 25, Height = 191, Weight = 90, NOC = ''ITA'',
       Games = ''1984 Summer'', Year = 1984, Season = ''Summer'', Sport = ''Rowing'',
       Event = ''Coxless Fours'', Medal = ''None''\<rparr>]"

text \<open>
  A frame with gaps, as parsed and as cleaned: three Italian fencers with gold, silver
  and bronze, an Italian rower and a French fencer. One age, one height and one weight
  are missing, two medals and one name as well; one weight has a fraction.
\<close>

definition squad_raw :: "raw_row list" where
  "squad_raw =
     [\<lparr>ID = 51, Name = Some ''a'', Sex = ''M'', Age = Whole 20, Height = Whole 170,
       Weight = Decimal (125 / 2), NOC = ''ITA'', Games = ''1960 Summer'', Year = 1960,
       Season = ''Summer'', Sport = ''Fencing'', Event = ''Foil Individual'',
       Medal = Some ''Gold''\<rparr>,
      \<lparr>ID = 52, Name = Some ''abc'', Sex = ''M'', Age = Whole 23, Height = Whole 176,
       Weight = Whole 70, NOC = ''ITA'', Games = ''1960 Summer'', Year = 1960,
       Season = ''Summer'', Sport = ''Fencing'', Event = ''Sabre Individual'',
       Medal = Some ''Silver''\<rparr>,
      \<lparr>ID = 53, Name = None, Sex = ''F'', Age = Whole 30, Height = NaN,
       Weight = Whole 74, NOC = ''ITA'', Games = ''1960 Summer'', Year = 1960,
       Season = ''Summer'', Sport = ''Fencing'', Event = ''Foil Individual'',
       Medal = Some ''Bronze''\<rparr>,
      \<lparr>ID = 54, Name = Some ''a'', Sex = ''M'', Age = NaN, Height = Whole 190,
       Weight = NaN, NOC = ''ITA'', Games = ''1960 Summer'', Year = 1960,
       Season = ''Summer'', Sport = ''Rowing'', Event = ''Eights'', Medal = None\<rparr>,
      \<lparr>ID = 55, Name = Some ''abc'', Sex = ''F'', Age = Whole 41, Height = Whole 181,
       Weight = Whole 80, NOC = ''FRA'', Games = ''1960 Summer'', Year = 1960,
       Season = ''Summer'', Sport = ''Fencing'', Event = ''Foil Individual'', Medal = None\<rparr>]"

definition squad :: "clean_row list" where
  "squad =
     [\<lparr>ID = 51, Name = ''ca978112ca1bbdcafac231b39a23dc4da786eff8147c4e72b9807785afee48bb'',
       Sex = ''M'', Age = 20, Height = 170, Weight = 62, NOC = ''ITA'',
       Games = ''1960 Summer'', Year = 1960, Season = ''Summer'', Sport = ''Fencing'',
       Event = ''Foil Individual'', Medal = ''Gold''\<rparr>,
      \<lparr>ID = 52, Name = ''ba7816bf8f01cfea414140de5dae2223b00361a396177a9cb410ff61f20015ad'',
       Sex = ''M'', Age = 23, Height = 176, Weight = 70, NOC = ''ITA'',
       Games = ''1960 Summer'', Year = 1960, Season = ''Summer'', Sport = ''Fencing'',
       Event = ''Sabre Individual'', Medal = ''Silver''\<rparr>,
      \<lparr>ID = 53, Name = ''9b2d5b4678781e53038e91ea5324530a03f27dc1d0e5f6c9bc9d493a23be9de0'',
       Sex = ''F'', Age = 30, Height = 178, Weight = 74, NOC = ''ITA'',
       Games = ''1960 Summer'', Year = 1960, Season = ''Summer'', Sport = ''Fencing'',
       Event = ''Foil Individual'', Medal = ''Bronze''\<rparr>,
      \<lparr>ID = 54, Name = ''ca978112ca1bbdcafac231b39a23dc4da786eff8147c4e72b9807785afee48bb'',
       Sex = ''M'', Age = 26, Height = 190, Weight = 72, NOC = ''ITA'',
       Games = ''1960 Summer'', Year = 1960, Season = ''Summer'', Sport = ''Rowing'',
       Event = ''Eights'', Medal = ''None''\<rparr>,
      \<lparr>ID = 55, Name = ''ba7816bf8f01cfea414140de5dae2223b00361a396177a9cb410ff61f20015ad'',
       Sex = ''F'', Age = 41, Height = 181, Weight = 80, NOC = ''FRA'',
       Games = ''1960 Summer'', Year = 1960, Season = ''Summer'', Sport = ''Fencing'',
       Event = ''Foil Individual'', Medal = ''None''\<rparr>]"

section \<open>Deduplication\<close>

lemma drop_duplicates_from_keys:
  "key ` set (drop_duplicates_from seen key rs) = key ` set rs - set seen"
  by (induction rs arbitrary: seen) auto

lemma drop_duplicates_from_distinct:
  "distinct (map key (drop_duplicates_from seen key rs))"
proof (induction rs arbitrary: seen)
  case Nil
  show ?case by simp
next
  case (Cons r rs)
  have "key r \<notin> key ` set (drop_duplicates_from (key r # seen) key rs)"
    unfolding drop_duplicates_from_keys by simp
  with Cons show ?case by simp
qed

lemma drop_duplicates_from_subset:
  "set (drop_duplicates_from seen key rs) \<subseteq> set rs"
  by (induction rs arbitrary: seen) auto

lemma drop_duplicates_keys: "key ` set (drop_duplicates key rs) = key ` set rs"
  by (simp add: drop_duplicates_def drop_duplicates_from_keys)

lemma drop_duplicates_distinct: "distinct (map key (drop_duplicates key rs))"
  by (simp add: drop_duplicates_def drop_duplicates_from_distinct)

lemma drop_duplicates_subset: "set (drop_duplicates key rs) \<subseteq> set rs"
  by (simp add: drop_duplicates_def drop_duplicates_from_subset)

lemma distinct_key_once:
  "distinct (map key xs) \<Longrightarrow> k \<in> key ` set xs \<Longrightarrow> length (filter (\<lambda>s. key s = k) xs) = 1"
proof (induction xs)
  case Nil
  then show ?case by simp
next
  case (Cons x xs)
  show ?case
  proof (cases "key x = k")
    case True
    from Cons.prems(1) have "key x \<notin> key ` set xs"
      by simp
    with True have "\<forall>s \<in> set xs. key s \<noteq> k"
      by blast
    then have "filter (\<lambda>s. key s = k) xs = []"
      by (simp add: filter_empty_conv)
    with True show ?thesis by simp
  next
    case False
    with Cons show ?thesis by auto
  qed
qed

lemma drop_duplicates_once:
  "r \<in> set rs \<Longrightarrow> length (filter (\<lambda>s. key s = key r) (drop_duplicates key rs)) = 1"
  by (rule distinct_key_once [OF drop_duplicates_distinct]) (simp add: drop_duplicates_keys)

lemma drop_duplicates_single_key:
  assumes "rs \<noteq> []" and "\<forall>r \<in> set rs. key r = k"
  shows "length (drop_duplicates key rs) = 1"
proof -
  have "set (map key (drop_duplicates key rs)) = {k}"
    using assms by (cases rs) (auto simp: drop_duplicates_keys)
  moreover have "card (set (map key (drop_duplicates key rs))) = length (map key (drop_duplicates key rs))"
    by (rule distinct_card [OF drop_duplicates_distinct])
  ultimately show ?thesis by simp
qed

lemma clean_team_final: "clean team_final_raw = Inr team_final"
  by code_simp

lemma fencing_unique_medals_team_final: "fencing_unique_medals team_final = [hd team_final]"
  by (simp add: team_final_def fencing_unique_medals_def fencing_def ita_def dedupMedals_def
      drop_duplicates_def)

lemma pivot_team_final:
  "pivotByYearAndMedalTier (fencing_unique_medals team_final)
     = [(2004, [(''Gold'', 1), (''Total'', 1)])]"
  unfolding fencing_unique_medals_team_final
  by (simp add: team_final_def pivotByYearAndMedalTier_def pivot_table_def pivot_columns_def with_total_def)

text \<open>
  Claim C1. \<open>dedupMedals\<close> keeps at most one row per games, event and medal among the
  medal-bearing rows: the kept rows have pairwise different keys, each is a medal-bearing
  row of the input, and each medal-bearing row of the input leaves exactly one row with
  its key. A non-empty group of rows that share games, event and medal becomes exactly
  one row. In the end-to-end example the three gold rows of the 2004 foil final become
  one row, and the Gold cell of the year 2004 in the pivot is 1.
\<close>

theorem dedupMedals_one_row:
  "distinct (map (\<lambda>r. (Games r, Event r, Medal r)) (dedupMedals rs)) \<and>
   (\<forall>r \<in> set (dedupMedals rs). r \<in> set rs \<and> Medal r \<noteq> ''None'') \<and>
   (\<forall>r \<in> set rs. Medal r \<noteq> ''None'' \<longrightarrow>
      length (filter (\<lambda>s. Games s = Games r \<and> Event s = Event r \<and> Medal s = Medal r)
                (dedupMedals rs)) = 1) \<and>
   (rs \<noteq> [] \<and> (\<forall>r \<in> set rs. Medal r \<noteq> ''None'' \<and> Games r = g \<and> Event r = e \<and> Medal r = m)
      \<longrightarrow> length (dedupMedals rs) = 1) \<and>
   clean team_final_raw = Inr team_final \<and>
   length (fencing_unique_medals team_final) = 1 \<and>
   cell (pivotByYearAndMedalTier (fencing_unique_medals team_final)) 2004 ''Gold'' = Some 1"
proof -
  let ?key = "\<lambda>r::clean_row. (Games r, Event r, Medal r)"
  let ?medal = "filter (\<lambda>r. Medal r \<noteq> ''None'') rs"
  have keys: "distinct (map (\<lambda>r. (Games r, Event r, Medal r)) (dedupMedals rs))"
    unfolding dedupMedals_def by (rule drop_duplicates_distinct)
  have members: "\<forall>r \<in> set (dedupMedals rs). r \<in> set rs \<and> Medal r \<noteq> ''None''"
    using drop_duplicates_subset [of ?key ?medal] unfolding dedupMedals_def by auto
  have once: "\<forall>r \<in> set rs. Medal r \<noteq> ''None'' \<longrightarrow>
      length (filter (\<lambda>s. Games s = Games r \<and> Event s = Event r \<and> Medal s = Medal r)
                (dedupMedals rs)) = 1"
  proof (intro ballI impI)
    fix r assume "r \<in> set rs" and "Medal r \<noteq> ''None''"
    then have "r \<in> set ?medal" by simp
    from drop_duplicates_once [OF this, of ?key]
    show "length (filter (\<lambda>s. Games s = Games r \<and> Event s = Event r \<and> Medal s = Medal r)
                (dedupMedals rs)) = 1"
      unfolding dedupMedals_def by simp
  qed
  have group: "rs \<noteq> [] \<and> (\<forall>r \<in> set rs. Medal r \<noteq> ''None'' \<and> Games r = g \<and> Event r = e \<and> Medal r = m)
      \<longrightarrow> length (dedupMedals rs) = 1"
  proof
    assume a: "rs \<noteq> [] \<and> (\<forall>r \<in> set rs. Medal r \<noteq> ''None'' \<and> Games r = g \<and> Event r = e \<and> Medal r = m)"
    then have "\<forall>r \<in> set rs. Medal r \<noteq> ''None''" by blast
    then have "?medal = rs" by simp
    moreover from a have "rs \<noteq> []" and "\<forall>r \<in> set rs. ?key r = (g, e, m)" by simp_all
    then have "length (drop_duplicates ?key rs) = 1"
      by (rule drop_duplicates_single_key)
    ultimately show "length (dedupMedals rs) = 1"
      unfolding dedupMedals_def by simp
  qed
  have len: "length (fencing_unique_medals team_final) = 1"
    unfolding fencing_unique_medals_team_final by simp
  have example: "cell (pivotByYearAndMedalTier (fencing_unique_medals team_final)) 2004 ''Gold'' = Some 1"
    unfolding pivot_team_final by (simp add: cell_def)
  show ?thesis
    by (intro conjI) (fact keys members once group clean_team_final len example)+
qed

text \<open>The theorem at the example frame and its first row.\<close>

theorem dedupMedals_one_row_witness:
  "hd team_final \<in> set team_final \<and> Medal (hd team_final) \<noteq> ''None'' \<and>
   length (filter (\<lambda>s. Games s = ''2004 Summer'' \<and> Event s = ''Foil Individual'' \<and> Medal s = ''Gold'')
             (dedupMedals team_final)) = 1 \<and>
   length (dedupMedals team_final) = 1"
proof -
  have a: "hd team_final \<in> set team_final" and b: "Medal (hd team_final) \<noteq> ''None''"
    and c: "Games (hd team_final) = ''2004 Summer''" "Event (hd team_final) = ''Foil Individual''"
      "Medal (hd team_final) = ''Gold''"
    by (simp_all add: team_final_def)
  have d: "team_final \<noteq> [] \<and> (\<forall>r \<in> set team_final. Medal r \<noteq> ''None'' \<and> Games r = ''2004 Summer''
      \<and> Event r = ''Foil Individual'' \<and> Medal r = ''Gold'')"
    by (simp add: team_final_def)
  from dedupMedals_one_row [of team_final "''2004 Summer''" "''Foil Individual''" "''Gold''"] a b c d
  show ?thesis by auto
qed

text \<open>
  Claim C6. \<open>dedupParticipants\<close> keeps at most one row per games and subject id: the
  kept rows have pairwise different (games, subject id) pairs, every kept row is a row of
  the input, and every row of the input leaves exactly one row with its games and
  subject id. So a subject with k events in one games is one row for that games.
\<close>

theorem dedupParticipants_one_row:
  "distinct (map (\<lambda>r. (Games r, ID r)) (dedupParticipants rs)) \<and>
   set (dedupParticipants rs) \<subseteq> set rs \<and>
   (\<forall>r \<in> set rs.
      length (filter (\<lambda>s. Games s = Games r \<and> ID s = ID r) (dedupParticipants rs)) = 1)"
proof -
  have "length (filter (\<lambda>s. Games s = Games r \<and> ID s = ID r) (dedupParticipants rs)) = 1"
    if "r \<in> set rs" for r
    using drop_duplicates_once [OF that, of "\<lambda>r. (Games r, ID r)"]
    by (simp add: dedupParticipants_def)
  then show ?thesis
    by (simp add: dedupParticipants_def drop_duplicates_distinct drop_duplicates_subset)
qed


text \<open>
  The subject with id 7 has two events in the 1996 games; one row of that games remains.
\<close>

theorem dedupParticipants_one_row_witness:
  "hd two_events \<in> set two_events \<and>
   length (filter (\<lambda>s. Games s = ''1996 Summer'' \<and> ID s = 7) two_events) = 2 \<and>
   length (filter (\<lambda>s. Games s = ''1996 Summer'' \<and> ID s = 7) (dedupParticipants two_events)) = 1"
proof -
  have a: "hd two_events \<in> set two_events"
    and b: "Games (hd two_events) = ''1996 Summer''" "ID (hd two_events) = 7"
    and c: "length (filter (\<lambda>s. Games s = ''1996 Summer'' \<and> ID s = 7) two_events) = 2"
    by (simp_all add: two_events_def)
  from dedupParticipants_one_row [of two_events] a b c show ?thesis by auto
qed

section \<open>Ranking\<close>

lemma groupby_count_keys:
  "map fst (groupby_count key rs) = sort (remdups (map key rs))"
  by (simp add: groupby_count_def comp_def)

lemma groupby_count_entry:
  "(k, c) \<in> set (groupby_count key rs) \<longleftrightarrow>
     k \<in> key ` set rs \<and> c = length (filter (\<lambda>r. key r = k) rs)"
  by (auto simp: groupby_count_def)

lemma groupby_count_reorder:
  assumes "mset rs' = mset rs"
  shows "groupby_count key rs' = groupby_count key rs"
proof -
  from assms have "set rs' = set rs"
    by (rule mset_eq_setD)
  then have "set (map key rs') = set (map key rs)"
    by simp
  then have "sorted_list_of_set (set (map key rs')) = sorted_list_of_set (set (map key rs))"
    by (rule arg_cong)
  then have keys: "sort (remdups (map key rs')) = sort (remdups (map key rs))"
    by (simp only: sorted_list_of_set_sort_remdups)
  have counts: "length (filter (\<lambda>r. key r = k) rs') = length (filter (\<lambda>r. key r = k) rs)" for k
  proof -
    have "mset (filter (\<lambda>r. key r = k) rs') = mset (filter (\<lambda>r. key r = k) rs)"
      unfolding mset_filter assms ..
    then show ?thesis by (rule mset_eq_length)
  qed
  show ?thesis
    unfolding groupby_count_def keys counts ..
qed

lemma sort_values_desc_set: "set (sort_values_desc tbl) = set tbl"
  by (simp add: sort_values_desc_def)

lemma sort_values_desc_distinct:
  "distinct (map fst (sort_values_desc tbl)) = distinct (map fst tbl)"
proof -
  have "mset (map fst (sort_values_desc tbl)) = mset (map fst tbl)"
    by (simp add: sort_values_desc_def)
  then show ?thesis by (rule mset_eq_imp_distinct_iff)
qed

lemma sort_values_desc_descending:
  "sorted_wrt (\<lambda>a b. snd b \<le> snd a) (sort_values_desc tbl)"
proof -
  have "sorted (map snd (sort_key snd (rev tbl)))"
    by (rule sorted_sort_key)
  then have "sorted_wrt (\<lambda>a b. snd a \<le> snd b) (sort_key snd (rev tbl))"
    by (simp add: sorted_wrt_map)
  then show ?thesis
    by (simp add: sort_values_desc_def sorted_wrt_rev)
qed

text \<open>
  Claim C3, as the code has it. \<open>groupCount\<close> returns one pair per key with the number of
  rows of that key, sorted descending by count. The order among keys of equal count does
  not follow the order in which the keys are met: the groups are formed in ascending key
  order before the sort, so the outcome is the same for every reordering of the rows.
\<close>

theorem groupCount_ranking:
  "distinct (map fst (groupCount key rs)) \<and>
   set (groupCount key rs) = (\<lambda>k. (k, length (filter (\<lambda>r. key r = k) rs))) ` key ` set rs \<and>
   sorted_wrt (\<lambda>a b. snd b \<le> snd a) (groupCount key rs) \<and>
   (mset rs' = mset rs \<longrightarrow> groupCount key rs' = groupCount key rs)"
proof (intro conjI impI)
  have "distinct (map fst (groupby_count key rs))"
    unfolding groupby_count_keys by simp
  then show "distinct (map fst (groupCount key rs))"
    by (simp add: groupCount_def sort_values_desc_distinct)
  have "set (groupby_count key rs) = (\<lambda>k. (k, length (filter (\<lambda>r. key r = k) rs))) ` key ` set rs"
    by (simp add: groupby_count_def)
  then show "set (groupCount key rs) = (\<lambda>k. (k, length (filter (\<lambda>r. key r = k) rs))) ` key ` set rs"
    by (simp only: groupCount_def sort_values_desc_set)
  show "sorted_wrt (\<lambda>a b. snd b \<le> snd a) (groupCount key rs)"
    unfolding groupCount_def by (rule sort_values_desc_descending)
  assume "mset rs' = mset rs"
  then have "groupby_count key rs' = groupby_count key rs"
    by (rule groupby_count_reorder)
  then show "groupCount key rs' = groupCount key rs"
    by (simp only: groupCount_def)
qed

text \<open>The theorem at a frame and its reversal.\<close>

theorem groupCount_ranking_witness:
  "mset (rev rowing_boxing) = mset rowing_boxing \<and>
   groupCount Sport (rev rowing_boxing) = groupCount Sport rowing_boxing \<and>
   sorted_wrt (\<lambda>a b. snd b \<le> snd a) (groupCount Sport rowing_boxing)"
  using groupCount_ranking [of Sport rowing_boxing "rev rowing_boxing"] by simp

text \<open>
  Rowing is met before Boxing and both have one medal. The specification's reading puts
  Rowing first; the code puts Boxing first, for this order of the rows and for the
  reverse one.
\<close>

theorem groupCount_ties_counterexample:
  "map Sport rowing_boxing = [''Rowing'', ''Boxing''] \<and>
   groupCount_encounter_order Sport rowing_boxing = [(''Rowing'', 1), (''Boxing'', 1)] \<and>
   groupCount Sport rowing_boxing = [(''Boxing'', 1), (''Rowing'', 1)] \<and>
   groupCount Sport (rev rowing_boxing) = [(''Boxing'', 1), (''Rowing'', 1)]"
  by (simp add: rowing_boxing_def groupCount_def groupCount_encounter_order_def
      groupby_count_def sort_values_desc_def drop_duplicates_def)

section \<open>Mean age per group\<close>

lemma floor_numeral_div:
  "\<lfloor>numeral a / numeral b :: rat\<rfloor> = numeral a div numeral b"
  using floor_divide_of_int_eq [of "numeral a" "numeral b", where ?'a = rat] by simp

lemma rint_error: "\<bar>of_int (rint x) - x\<bar> \<le> 1 / 2"
proof -
  have "of_int \<lfloor>x\<rfloor> \<le> x" and "x < of_int \<lfloor>x\<rfloor> + 1"
    by linarith+
  then show ?thesis
    by (auto simp: rint_def Let_def)
qed

lemma rint_tie_even:
  assumes "\<bar>of_int (rint x) - x\<bar> = 1 / 2"
  shows "even (rint x)"
proof -
  have "of_int \<lfloor>x\<rfloor> \<le> x" and "x < of_int \<lfloor>x\<rfloor> + 1"
    by linarith+
  with assms show ?thesis
    by (auto simp: rint_def Let_def split: if_splits)
qed

lemma round1_nearest:
  "\<exists>k. round1 x = of_int k / 10 \<and> \<bar>of_int k - 10 * x\<bar> \<le> 1 / 2
     \<and> (\<bar>of_int k - 10 * x\<bar> = 1 / 2 \<longrightarrow> even k)"
proof (intro exI conjI impI)
  show "round1 x = of_int (rint (x * 10)) / 10"
    by (simp add: round1_def)
  show "\<bar>of_int (rint (x * 10)) - 10 * x\<bar> \<le> 1 / 2"
    using rint_error [of "x * 10"] by (simp add: mult.commute)
  assume "\<bar>of_int (rint (x * 10)) - 10 * x\<bar> = 1 / 2"
  then have "\<bar>of_int (rint (x * 10)) - x * 10\<bar> = 1 / 2"
    by (simp add: mult.commute)
  then show "even (rint (x * 10))"
    by (rule rint_tie_even)
qed

lemma map_of_meanByGroup:
  "map_of (meanByGroup rows) g =
     (if g \<in> fst ` set rows
      then Some (round1 (mean (map snd (filter (\<lambda>row. fst row = g) rows))))
      else None)"
  by (simp add: meanByGroup_def groupby_mean_def comp_def map_of_map_restrict restrict_map_def)

lemma age_compare_quartet:
  "age_compare quartet =
     [(''Other sports'', 24), (''Other sports'', 24), (''Other sports'', 24), (''Other sports'', 25)]"
  by (simp add: quartet_def age_compare_def ita_def)

lemma groupby_mean_quartet: "groupby_mean (age_compare quartet) = [(''Other sports'', 97 / 4)]"
  unfolding age_compare_quartet by (simp add: groupby_mean_def mean_def)

text \<open>
  Claim C7, as the code has it. \<open>meanByGroup\<close> has one entry per group; its value is a
  multiple of one tenth that lies within one twentieth of the group's mean, and where
  the mean is exactly halfway between two tenths the even one is taken (numpy's rule),
  not the one away from zero. Means are exact rationals here.
\<close>

theorem meanByGroup_rounds_half_even:
  "distinct (map fst (meanByGroup rows)) \<and>
   set (map fst (meanByGroup rows)) = fst ` set rows \<and>
   (\<forall>g \<in> fst ` set rows.
      \<exists>k. map_of (meanByGroup rows) g = Some (of_int k / 10) \<and>
          \<bar>of_int k - 10 * mean (map snd (filter (\<lambda>row. fst row = g) rows))\<bar> \<le> 1 / 2 \<and>
          (\<bar>of_int k - 10 * mean (map snd (filter (\<lambda>row. fst row = g) rows))\<bar> = 1 / 2
             \<longrightarrow> even k))"
proof (intro conjI ballI)
  have keys: "map fst (meanByGroup rows) = sort (remdups (map fst rows))"
    by (simp add: meanByGroup_def groupby_mean_def comp_def)
  show "distinct (map fst (meanByGroup rows))"
    unfolding keys by simp
  show "set (map fst (meanByGroup rows)) = fst ` set rows"
    unfolding keys by simp
next
  fix g assume g: "g \<in> fst ` set rows"
  let ?m = "mean (map snd (filter (\<lambda>row. fst row = g) rows))"
  from round1_nearest [of ?m] obtain k where
    "round1 ?m = of_int k / 10" "\<bar>of_int k - 10 * ?m\<bar> \<le> 1 / 2"
    "\<bar>of_int k - 10 * ?m\<bar> = 1 / 2 \<longrightarrow> even k"
    by blast
  with g show "\<exists>k. map_of (meanByGroup rows) g = Some (of_int k / 10) \<and>
          \<bar>of_int k - 10 * ?m\<bar> \<le> 1 / 2 \<and> (\<bar>of_int k - 10 * ?m\<bar> = 1 / 2 \<longrightarrow> even k)"
    by (auto simp: map_of_meanByGroup)
qed

text \<open>The mean 24.25 is a tie: the theorem gives 24.2, whose last digit is even.\<close>

theorem meanByGroup_rounds_half_even_witness:
  "''Other sports'' \<in> fst ` set (age_compare quartet) \<and>
   mean (map snd (filter (\<lambda>row. fst row = ''Other sports'') (age_compare quartet))) = 97 / 4 \<and>
   (\<exists>k. map_of (meanByGroup (age_compare quartet)) ''Other sports'' = Some (of_int k / 10) \<and>
        \<bar>(of_int k :: rat) - 10 * (97 / 4)\<bar> = 1 / 2 \<and> even k)"
proof -
  have a: "''Other sports'' \<in> fst ` set (age_compare quartet)"
    and b: "mean (map snd (filter (\<lambda>row. fst row = ''Other sports'') (age_compare quartet))) = 97 / 4"
    unfolding age_compare_quartet by (simp_all add: mean_def)
  from meanByGroup_rounds_half_even [of "age_compare quartet"] a obtain k where
    k: "map_of (meanByGroup (age_compare quartet)) ''Other sports'' = Some (of_int k / 10)"
      "\<bar>of_int k - 10 * mean (map snd (filter (\<lambda>row. fst row = ''Other sports'') (age_compare quartet)))\<bar> = 1 / 2
        \<longrightarrow> even k"
    by blast
  have "map_of (meanByGroup (age_compare quartet)) ''Other sports'' = Some (242 / 10)"
    by (simp add: meanByGroup_def groupby_mean_quartet round1_def rint_def floor_numeral_div)
  with k(1) have "(of_int k :: rat) = 242" by simp
  then have k242: "k = 242" by linarith
  have tie: "\<bar>(of_int k :: rat) - 10 * (97 / 4)\<bar> = 1 / 2"
    unfolding k242 by simp
  with k(2) b have "even k" by simp
  with k(1) tie have "\<exists>k. map_of (meanByGroup (age_compare quartet)) ''Other sports'' = Some (of_int k / 10) \<and>
        \<bar>(of_int k :: rat) - 10 * (97 / 4)\<bar> = 1 / 2 \<and> even k"
    by blast
  with a b show ?thesis by blast
qed

text \<open>
  The mean 24.25 and its tenfold 242.5 are binary fractions, so no floating-point error
  enters: the code gives 24.2, rounding halves away from zero gives 24.3.
\<close>

theorem meanByGroup_half_away_counterexample:
  "groupby_mean (age_compare quartet) = [(''Other sports'', 97 / 4)] \<and>
   mean_age quartet = [(''Other sports'', 242 / 10)] \<and>
   meanByGroup_half_away (age_compare quartet) = [(''Other sports'', 243 / 10)]"
  by (simp add: mean_age_def meanByGroup_def meanByGroup_half_away_def groupby_mean_quartet
      round1_def rint_def round1_half_away_def floor_numeral_div)

section \<open>The median\<close>

lemma filter_length_sort:
  "length (filter P (sort xs)) = length (filter P (xs :: rat list))"
proof -
  have "mset (filter P (sort xs)) = mset (filter P xs)"
    by (simp only: mset_filter mset_sort)
  then show ?thesis by (rule mset_eq_length)
qed

lemma sorted_has_rank:
  fixes s :: "rat list"
  assumes "sorted s" and "k < length s"
  shows "length (filter (\<lambda>v. v < s ! k) s) \<le> k" and "k < length (filter (\<lambda>v. v \<le> s ! k) s)"
proof -
  have split: "s = take k s @ drop k s" by simp
  have "\<forall>v \<in> set (drop k s). \<not> v < s ! k"
  proof
    fix v assume "v \<in> set (drop k s)"
    then obtain j where "j < length (drop k s)" "v = drop k s ! j"
      by (auto simp: in_set_conv_nth)
    then have "v = s ! (k + j)" and "k + j < length s" by simp_all
    with assms(1) have "s ! k \<le> v"
      by (simp add: sorted_nth_mono)
    then show "\<not> v < s ! k" by simp
  qed
  then have "filter (\<lambda>v. v < s ! k) (drop k s) = []"
    by (simp add: filter_empty_conv)
  then have "filter (\<lambda>v. v < s ! k) s = filter (\<lambda>v. v < s ! k) (take k s)"
    by (subst split) (simp only: filter_append append_Nil2)
  moreover have "length (filter (\<lambda>v. v < s ! k) (take k s)) \<le> length (take k s)"
    by (rule length_filter_le)
  ultimately show "length (filter (\<lambda>v. v < s ! k) s) \<le> k"
    using assms(2) by simp
next
  have split: "s = take (Suc k) s @ drop (Suc k) s" by simp
  have "\<forall>v \<in> set (take (Suc k) s). v \<le> s ! k"
  proof
    fix v assume "v \<in> set (take (Suc k) s)"
    then obtain j where "j < length (take (Suc k) s)" "v = take (Suc k) s ! j"
      by (auto simp: in_set_conv_nth)
    with assms(2) have "v = s ! j" and "j \<le> k" by simp_all
    with assms show "v \<le> s ! k"
      by (simp add: sorted_nth_mono)
  qed
  then have "filter (\<lambda>v. v \<le> s ! k) (take (Suc k) s) = take (Suc k) s"
    by simp
  then have "length (filter (\<lambda>v. v \<le> s ! k) s)
      = length (take (Suc k) s) + length (filter (\<lambda>v. v \<le> s ! k) (drop (Suc k) s))"
    by (subst split) (simp only: filter_append length_append)
  with assms(2) show "k < length (filter (\<lambda>v. v \<le> s ! k) s)"
    by simp
qed

lemma sort_has_rank:
  assumes "k < length vs"
  shows "has_rank vs k (sort vs ! k)"
proof -
  have k: "k < length (sort vs)" using assms by simp
  have "sort vs ! k \<in> set (sort vs)" using k by (rule nth_mem)
  then have "sort vs ! k \<in> set vs" by simp
  moreover have "length (filter (\<lambda>v. v < sort vs ! k) vs) \<le> k"
    using sorted_has_rank(1) [OF sorted_sort k] by (simp only: filter_length_sort)
  moreover have "k < length (filter (\<lambda>v. v \<le> sort vs ! k) vs)"
    using sorted_has_rank(2) [OF sorted_sort k] by (simp only: filter_length_sort)
  ultimately show ?thesis by (simp add: has_rank_def)
qed

lemma has_rank_unique:
  assumes "has_rank vs k x" and "has_rank vs k y"
  shows "x = y"
proof -
  have le: "a \<le> b" if "has_rank vs k a" "has_rank vs k b" for a b
  proof (rule ccontr)
    assume "\<not> a \<le> b"
    then have "b < a" by simp
    then have "length (filter (\<lambda>v. v \<le> b) vs) \<le> length (filter (\<lambda>v. v < a) vs)"
    proof -
      have "filter (\<lambda>v. v \<le> b) vs = filter (\<lambda>v. v \<le> b) (filter (\<lambda>v. v < a) vs)"
        using \<open>b < a\<close> by (auto intro: filter_cong)
      then show ?thesis
        by (metis length_filter_le)
    qed
    with that show False by (simp add: has_rank_def)
  qed
  from le [OF assms] le [OF assms(2) assms(1)] show ?thesis by simp
qed

lemma is_median_unique: "is_median vs m \<Longrightarrow> is_median vs m' \<Longrightarrow> m = m'"
  unfolding is_median_def by (metis has_rank_unique)

lemma median_is_median:
  assumes "median col = Some m"
  shows "is_median (List.map_filter id col) m"
proof -
  let ?vs = "List.map_filter id col"
  let ?s = "sort ?vs"
  let ?n = "length ?vs"
  from assms have n: "0 < ?n"
    by (auto simp: median_def Let_def split: if_splits)
  show ?thesis
  proof (cases "odd ?n")
    case True
    with assms n have m: "m = ?s ! (?n div 2)"
      by (auto simp: median_def Let_def split: if_splits)
    from True have eq: "(?n - 1) div 2 = ?n div 2"
      by (auto elim: oddE)
    have "has_rank ?vs (?n div 2) m"
      unfolding m using n by (intro sort_has_rank) simp
    then show ?thesis
      unfolding is_median_def eq by (intro exI [of _ m]) simp
  next
    case False
    with assms n have m: "m = (?s ! (?n div 2 - 1) + ?s ! (?n div 2)) / 2"
      by (auto simp: median_def Let_def split: if_splits)
    from False n have eq: "(?n - 1) div 2 = ?n div 2 - 1"
      by (auto elim!: evenE)
    have "?n div 2 - 1 < ?n"
      using n by linarith
    then have "has_rank ?vs (?n div 2 - 1) (?s ! (?n div 2 - 1))"
      by (rule sort_has_rank)
    moreover have "has_rank ?vs (?n div 2) (?s ! (?n div 2))"
      using n by (intro sort_has_rank) simp
    ultimately show ?thesis
      unfolding is_median_def eq m by blast
  qed
qed

lemma map_filter_id_map: "List.map_filter id (map f xs) = List.map_filter f xs"
  by (induction xs) (simp_all add: map_filter_simps split: option.splits)

lemma median_present:
  "median (map number col) = Some m \<Longrightarrow> is_median (present col) m"
  using median_is_median [of "map number col" m]
  by (simp only: present_def map_filter_id_map)

section \<open>What the cleaning step leaves\<close>

lemma those_map_Some: "those (map Some vs) = Some vs"
  by (induction vs) simp_all

lemma those_SomeD: "those col = Some vs \<Longrightarrow> col = map Some vs"
proof (induction col arbitrary: vs)
  case Nil
  then show ?case by simp
next
  case (Cons x col)
  from Cons.prems obtain y ws where "x = Some y" "those col = Some ws" "vs = y # ws"
    by (auto split: option.splits)
  with Cons.IH [of ws] show ?case by simp
qed

lemma whole_SomeD: "whole x = Some k \<Longrightarrow> x = Whole k"
  by (cases x) simp_all

lemma those_whole_SomeD: "those (map whole col) = Some ks \<Longrightarrow> col = map Whole ks"
proof -
  assume "those (map whole col) = Some ks"
  then have "map whole col = map Some ks" by (rule those_SomeD)
  then show "col = map Whole ks"
  proof (induction col arbitrary: ks)
    case Nil
    then show ?case by simp
  next
    case (Cons x col)
    then obtain k ks' where "ks = k # ks'" "whole x = Some k" "map whole col = map Some ks'"
      by (cases ks) auto
    with Cons.IH [of ks'] show ?case by (simp add: whole_SomeD)
  qed
qed

lemma is_int64_those: "is_int64 col \<longleftrightarrow> those (map whole col) \<noteq> None"
  unfolding is_int64_def by (induction col) (auto split: option.splits)

lemma is_int64_fillna: "is_int64 (map (fillna m) col) \<longleftrightarrow> is_int64 col"
proof -
  have "whole (fillna m x) \<noteq> None \<longleftrightarrow> whole x \<noteq> None" for x
    by (cases x; cases m) (simp_all add: fillna_def)
  then show ?thesis
    by (simp add: is_int64_def list_all_iff)
qed

lemma uint8_cut:
  fixes a :: rat
  assumes "0 \<le> a" and "a < 256"
  shows "uint (word_of_int \<lfloor>a\<rfloor> :: 8 word) = \<lfloor>a\<rfloor>" and "uint (float_to_uint8 a) = \<lfloor>a\<rfloor>"
proof -
  from assms have lo: "0 \<le> \<lfloor>a\<rfloor>" and hi: "\<lfloor>a\<rfloor> < 256"
    by (simp_all add: floor_less_iff)
  then show *: "uint (word_of_int \<lfloor>a\<rfloor> :: 8 word) = \<lfloor>a\<rfloor>"
    by (simp add: uint_word_of_int)
  from hi have "\<lfloor>a\<rfloor> < 2147483648" by simp
  with * show "uint (float_to_uint8 a) = \<lfloor>a\<rfloor>"
    by (simp only: float_to_uint8_def if_True)
qed

lemma astype_uint8_nth:
  assumes "astype_uint8 col = Inr ws"
  shows "length ws = length col"
    and "i < length col \<Longrightarrow>
      \<exists>a. number (col ! i) = Some a \<and>
          ws ! i = (if is_int64 col then word_of_int \<lfloor>a\<rfloor> else float_to_uint8 a) \<and>
          (is_int64 col \<or> 0 \<le> a)"
proof -
  show "length ws = length col"
  proof (cases "those (map whole col)")
    case (Some ks)
    with assms have "ws = map word_of_int ks" by (simp add: astype_uint8_def)
    moreover from Some have "col = map Whole ks" by (rule those_whole_SomeD)
    ultimately show ?thesis by simp
  next
    case None
    with assms obtain vs where vs: "those (map number col) = Some vs" "ws = map float_to_uint8 vs"
      by (auto simp: astype_uint8_def split: option.splits if_splits)
    from those_SomeD [OF vs(1)] have "length vs = length col"
      by (metis length_map)
    with vs show ?thesis by simp
  qed
  assume i: "i < length col"
  show "\<exists>a. number (col ! i) = Some a \<and>
          ws ! i = (if is_int64 col then word_of_int \<lfloor>a\<rfloor> else float_to_uint8 a) \<and>
          (is_int64 col \<or> 0 \<le> a)"
  proof (cases "those (map whole col)")
    case (Some ks)
    with assms have ws: "ws = map word_of_int ks" by (simp add: astype_uint8_def)
    from Some have col: "col = map Whole ks" by (rule those_whole_SomeD)
    from Some have int: "is_int64 col" by (simp add: is_int64_those)
    from i col have "i < length ks" by simp
    with col ws have "number (col ! i) = Some (of_int (ks ! i))" "ws ! i = word_of_int (ks ! i)"
      by simp_all
    with int show ?thesis
      by (intro exI [of _ "of_int (ks ! i)"]) simp
  next
    case None
    then have float: "\<not> is_int64 col" by (simp add: is_int64_those)
    from None assms obtain vs where vs: "those (map number col) = Some vs"
      "\<not> (\<exists>v \<in> set vs. v < 0)" "ws = map float_to_uint8 vs"
      by (auto simp: astype_uint8_def split: option.splits if_splits)
    from those_SomeD [OF vs(1)] have col: "map number col = map Some vs" .
    then have len: "length vs = length col" by (metis length_map)
    with i have iv: "i < length vs" by simp
    from col i have "number (col ! i) = Some (vs ! i)"
      by (metis iv nth_map)
    moreover from vs(2) iv have "0 \<le> vs ! i"
      by (meson not_less nth_mem)
    moreover from vs(3) iv have "ws ! i = float_to_uint8 (vs ! i)" by simp
    ultimately show ?thesis using float
      by (intro exI [of _ "vs ! i"]) simp
  qed
qed

lemma astype_uint8_filled:
  assumes "astype_uint8 (map (fillna (median (map number col))) col) = Inr ws"
    and "i < length col"
  shows "truncated_uint8 col (col ! i) (ws ! i)"
proof -
  let ?m = "median (map number col)"
  let ?filled = "map (fillna ?m) col"
  from assms(2) have i: "i < length ?filled" by simp
  from astype_uint8_nth(2) [OF assms(1) i] obtain a where
    a: "number (?filled ! i) = Some a"
      "ws ! i = (if is_int64 ?filled then word_of_int \<lfloor>a\<rfloor> else float_to_uint8 a)"
      "is_int64 ?filled \<or> 0 \<le> a"
    by blast
  from a(1) assms(2) have 1: "number (fillna ?m (col ! i)) = Some a" by simp
  from a(2) have 2: "ws ! i = (if is_int64 col then word_of_int \<lfloor>a\<rfloor> else float_to_uint8 a)"
    by (simp only: is_int64_fillna)
  from a(3) have 3: "is_int64 col \<or> 0 \<le> a"
    by (simp only: is_int64_fillna)
  have 4: "0 \<le> a \<and> a < 256 \<longrightarrow> uint (ws ! i) = \<lfloor>a\<rfloor>"
    unfolding 2 using uint8_cut [of a] by simp
  from 1 2 3 4 show ?thesis
    unfolding truncated_uint8_def by blast
qed

lemma fillna_medians_nth:
  "length (fillna_medians df) = length df"
  "map Age (fillna_medians df) = map (fillna (median (map number (map Age df)))) (map Age df)"
  "map Height (fillna_medians df) = map (fillna (median (map number (map Height df)))) (map Height df)"
  "map Weight (fillna_medians df) = map (fillna (median (map number (map Weight df)))) (map Weight df)"
  "i < length df \<Longrightarrow>
     fillna_medians df ! i =
       (df ! i)\<lparr>Age := fillna (median (map number (map Age df))) (Age (df ! i)),
                Height := fillna (median (map number (map Height df))) (Height (df ! i)),
                Weight := fillna (median (map number (map Weight df))) (Weight (df ! i))\<rparr>"
  by (simp_all add: fillna_medians_def Let_def comp_def)

lemma clean_Inr:
  assumes "clean raw = Inr df"
  shows "length df = length raw"
    and "i < length raw \<Longrightarrow>
      truncated_uint8 (map Age raw) (Age (raw ! i)) (Age (df ! i)) \<and>
      truncated_uint8 (map Height raw) (Height (raw ! i)) (Height (df ! i)) \<and>
      truncated_uint8 (map Weight raw) (Weight (raw ! i)) (Weight (df ! i)) \<and>
      ID (df ! i) = word_of_int (ID (raw ! i)) \<and> Year (df ! i) = word_of_int (Year (raw ! i)) \<and>
      Name (df ! i) = anonymise (Name (raw ! i)) \<and> Medal (df ! i) = fillna_medal (Medal (raw ! i)) \<and>
      Sex (df ! i) = Sex (raw ! i) \<and> NOC (df ! i) = NOC (raw ! i) \<and> Games (df ! i) = Games (raw ! i) \<and>
      Season (df ! i) = Season (raw ! i) \<and> Sport (df ! i) = Sport (raw ! i) \<and>
      Event (df ! i) = Event (raw ! i)"
proof -
  let ?f = "fillna_medians raw"
  from assms obtain typed where
    typed: "astype ?f = Inr typed" and df: "df = map finish_row typed"
    by (auto simp: clean_def split: sum.splits)
  from typed obtain ages heights weights where
    cols: "astype_uint8 (map Age ?f) = Inr ages" "astype_uint8 (map Height ?f) = Inr heights"
      "astype_uint8 (map Weight ?f) = Inr weights"
    and rows: "typed = map (\<lambda>(r, a, h, w).
                 \<lparr>ID = word_of_int (ID r), Name = Name r, Sex = Sex r,
                  Age = a, Height = h, Weight = w,
                  NOC = NOC r, Games = Games r, Year = word_of_int (Year r),
                  Season = Season r, Sport = Sport r, Event = Event r, Medal = Medal r\<rparr>)
               (zip ?f (zip ages (zip heights weights)))"
    by (auto simp: astype_def split: sum.splits)
  have len: "length ages = length raw" "length heights = length raw" "length weights = length raw"
    using astype_uint8_nth(1) [OF cols(1)] astype_uint8_nth(1) [OF cols(2)]
      astype_uint8_nth(1) [OF cols(3)] by (simp_all add: fillna_medians_nth(1))
  with rows df show "length df = length raw"
    by (simp add: fillna_medians_nth(1))
  assume i: "i < length raw"
  have a: "truncated_uint8 (map Age raw) (Age (raw ! i)) (ages ! i)"
    using astype_uint8_filled [of "map Age raw" ages i] cols(1) i
    by (simp add: fillna_medians_nth(2))
  have h: "truncated_uint8 (map Height raw) (Height (raw ! i)) (heights ! i)"
    using astype_uint8_filled [of "map Height raw" heights i] cols(2) i
    by (simp add: fillna_medians_nth(3))
  have w: "truncated_uint8 (map Weight raw) (Weight (raw ! i)) (weights ! i)"
    using astype_uint8_filled [of "map Weight raw" weights i] cols(3) i
    by (simp add: fillna_medians_nth(4))
  from i len rows have "typed ! i =
      \<lparr>ID = word_of_int (ID (?f ! i)), Name = Name (?f ! i), Sex = Sex (?f ! i),
       Age = ages ! i, Height = heights ! i, Weight = weights ! i,
       NOC = NOC (?f ! i), Games = Games (?f ! i), Year = word_of_int (Year (?f ! i)),
       Season = Season (?f ! i), Sport = Sport (?f ! i), Event = Event (?f ! i),
       Medal = Medal (?f ! i)\<rparr>"
    by (simp add: fillna_medians_nth(1))
  moreover from i len rows df have "df ! i = finish_row (typed ! i)"
    by (simp add: fillna_medians_nth(1))
  ultimately have row: "df ! i =
      \<lparr>ID = word_of_int (ID (raw ! i)), Name = anonymise (Name (raw ! i)), Sex = Sex (raw ! i),
       Age = ages ! i, Height = heights ! i, Weight = weights ! i,
       NOC = NOC (raw ! i), Games = Games (raw ! i), Year = word_of_int (Year (raw ! i)),
       Season = Season (raw ! i), Sport = Sport (raw ! i), Event = Event (raw ! i),
       Medal = fillna_medal (Medal (raw ! i))\<rparr>"
    using i by (simp add: finish_row_def fillna_medians_nth(5))
  show "truncated_uint8 (map Age raw) (Age (raw ! i)) (Age (df ! i)) \<and>
      truncated_uint8 (map Height raw) (Height (raw ! i)) (Height (df ! i)) \<and>
      truncated_uint8 (map Weight raw) (Weight (raw ! i)) (Weight (df ! i)) \<and>
      ID (df ! i) = word_of_int (ID (raw ! i)) \<and> Year (df ! i) = word_of_int (Year (raw ! i)) \<and>
      Name (df ! i) = anonymise (Name (raw ! i)) \<and> Medal (df ! i) = fillna_medal (Medal (raw ! i)) \<and>
      Sex (df ! i) = Sex (raw ! i) \<and> NOC (df ! i) = NOC (raw ! i) \<and> Games (df ! i) = Games (raw ! i) \<and>
      Season (df ! i) = Season (raw ! i) \<and> Sport (df ! i) = Sport (raw ! i) \<and>
      Event (df ! i) = Event (raw ! i)"
    unfolding row using a h w by simp
qed

lemma script_Inr:
  assumes "script raw = Inr d"
  shows "\<exists>df. clean raw = Inr df \<and> d = figures df \<and>
    set [''Gold'', ''Silver'', ''Bronze''] \<subseteq> set (pivot_columns (fencing_unique_medals df))"
  using assms by (auto simp: script_def split: sum.splits if_splits)

text \<open>
  The cast at the edges: an integer column wraps a negative integer; a float column with
  a negative value or a missing one is refused; a float of \<open>2^31\<close> or more becomes 0.
\<close>

lemma clean_squad: "clean squad_raw = Inr squad"
  by code_simp

lemma pivot_columns_squad:
  "pivot_columns (fencing_unique_medals squad) = [''Bronze'', ''Gold'', ''Silver'']"
  by (simp add: squad_def pivot_columns_def fencing_unique_medals_def fencing_def ita_def
      dedupMedals_def drop_duplicates_def)

lemma script_squad: "script squad_raw = Inr (figures squad)"
  by (simp add: script_def clean_squad pivot_columns_squad)

lemma median_squad:
  "median (map number (map Age squad_raw)) = Some (53 / 2)"
  "median (map number (map Age (filter (\<lambda>r. NOC r = ''ITA'') squad_raw))) = Some 23"
  by code_simp+

lemma mean_age_squad: "mean_age squad = [(''Fencing'', 243 / 10), (''Other sports'', 26)]"
  by code_simp

lemma astype_uint8_examples:
  "astype_uint8 [Whole (- 1), Whole 300] = Inr [255, 44]"
  "astype_uint8 [Decimal (- 1), Whole 300] = Inl ValueError"
  "astype_uint8 [NaN, Whole 300] = Inl IntCastingNaNError"
  "astype_uint8 [Decimal (4294967297 / 2), Decimal (601 / 2)] = Inr [0, 44]"
  by code_simp+

lemma mean_age_fencing:
  "map_of (mean_age df) ''Fencing'' =
     (if filter (\<lambda>r. NOC r = ''ITA'' \<and> Sport r = ''Fencing'') df = [] then None
      else Some (round1 (of_nat (sum_list (map (\<lambda>r. unat (Age r))
                    (filter (\<lambda>r. NOC r = ''ITA'' \<and> Sport r = ''Fencing'') df)))
                  / of_nat (length (filter (\<lambda>r. NOC r = ''ITA'' \<and> Sport r = ''Fencing'') df)))))"
proof -
  let ?F = "filter (\<lambda>r. NOC r = ''ITA'' \<and> Sport r = ''Fencing'') df"
  let ?O = "filter (\<lambda>r. NOC r = ''ITA'' \<and> Sport r \<noteq> ''Fencing'') df"
  have rows: "age_compare df = map (\<lambda>r. (''Fencing'', Age r)) ?F @ map (\<lambda>r. (''Other sports'', Age r)) ?O"
    by (simp add: age_compare_def ita_def conj_commute)
  have sel: "map snd (filter (\<lambda>row. fst row = ''Fencing'') (age_compare df)) = map Age ?F"
    unfolding rows by (simp add: filter_map comp_def)
  have "map fst (age_compare df)
      = replicate (length ?F) ''Fencing'' @ replicate (length ?O) ''Other sports''"
    unfolding rows by (simp add: comp_def map_replicate_const)
  then have "set (map fst (age_compare df))
      = set (replicate (length ?F) ''Fencing'') \<union> set (replicate (length ?O) ''Other sports'')"
    by simp
  then have mem: "''Fencing'' \<in> fst ` set (age_compare df) \<longleftrightarrow> ?F \<noteq> []"
    by (simp only: set_map) (simp add: set_replicate_conv_if)
  show ?thesis
    unfolding mean_age_def map_of_meanByGroup sel mem
    by (simp add: mean_def comp_def)
qed

lemma mean_age_others:
  "map_of (mean_age df) ''Other sports'' =
     (if filter (\<lambda>r. NOC r = ''ITA'' \<and> Sport r \<noteq> ''Fencing'') df = [] then None
      else Some (round1 (of_nat (sum_list (map (\<lambda>r. unat (Age r))
                    (filter (\<lambda>r. NOC r = ''ITA'' \<and> Sport r \<noteq> ''Fencing'') df)))
                  / of_nat (length (filter (\<lambda>r. NOC r = ''ITA'' \<and> Sport r \<noteq> ''Fencing'') df)))))"
proof -
  let ?F = "filter (\<lambda>r. NOC r = ''ITA'' \<and> Sport r = ''Fencing'') df"
  let ?O = "filter (\<lambda>r. NOC r = ''ITA'' \<and> Sport r \<noteq> ''Fencing'') df"
  have rows: "age_compare df = map (\<lambda>r. (''Fencing'', Age r)) ?F @ map (\<lambda>r. (''Other sports'', Age r)) ?O"
    by (simp add: age_compare_def ita_def conj_commute)
  have sel: "map snd (filter (\<lambda>row. fst row = ''Other sports'') (age_compare df)) = map Age ?O"
    unfolding rows by (simp add: filter_map comp_def)
  have "map fst (age_compare df)
      = replicate (length ?F) ''Fencing'' @ replicate (length ?O) ''Other sports''"
    unfolding rows by (simp add: comp_def map_replicate_const)
  then have "set (map fst (age_compare df))
      = set (replicate (length ?F) ''Fencing'') \<union> set (replicate (length ?O) ''Other sports'')"
    by simp
  then have mem: "''Other sports'' \<in> fst ` set (age_compare df) \<longleftrightarrow> ?O \<noteq> []"
    by (simp only: set_map) (simp add: set_replicate_conv_if)
  show ?thesis
    unfolding mean_age_def map_of_meanByGroup sel mem
    by (simp add: mean_def comp_def)
qed

lemma mean_age_groups:
  "set (map fst (mean_age df)) \<subseteq> {''Fencing'', ''Other sports''}"
  by (auto simp: mean_age_def meanByGroup_def groupby_mean_def age_compare_def)

lemma uint8_range: "uint (w :: 8 word) \<in> {0..255}"
proof -
  have "uint w < 2 ^ LENGTH(8)" by (rule unsigned_less)
  then show ?thesis by simp
qed

text \<open>
  Claim C10. When the cleaning step succeeds, every row's \<open>Age\<close>, \<open>Height\<close> and \<open>Weight\<close>
  is an 8-bit value, hence in \<open>[0, 255]\<close>: the cast of the imputed reading (the reading
  itself where there was one, the column median where there was none), which for every
  imputed reading between 0 and 256 is that reading with its fraction cut off. The ages
  charted and averaged are these values: the age histogram and the age comparison hold
  the cleaned ages of the Italian rows, and the mean age of each of the two groups is the
  sum of the group's cleaned ages divided by their number, rounded.
\<close>

theorem cleaned_numbers_are_truncated_uint8:
  assumes "clean raw = Inr df"
  shows "length df = length raw \<and>
    (\<forall>i < length raw.
        truncated_uint8 (map Age raw) (Age (raw ! i)) (Age (df ! i)) \<and>
        truncated_uint8 (map Height raw) (Height (raw ! i)) (Height (df ! i)) \<and>
        truncated_uint8 (map Weight raw) (Weight (raw ! i)) (Weight (df ! i))) \<and>
    (\<forall>r \<in> set df. uint (Age r) \<in> {0..255} \<and> uint (Height r) \<in> {0..255} \<and>
        uint (Weight r) \<in> {0..255}) \<and>
    (\<forall>d. script raw = Inr d \<longrightarrow>
        fig_age_hist d = map Age (filter (\<lambda>r. NOC r = ''ITA'') df) \<and>
        fig_age_fencing_vs_others d =
          map (\<lambda>r. (''Fencing'', Age r)) (filter (\<lambda>r. NOC r = ''ITA'' \<and> Sport r = ''Fencing'') df)
          @ map (\<lambda>r. (''Other sports'', Age r))
              (filter (\<lambda>r. NOC r = ''ITA'' \<and> Sport r \<noteq> ''Fencing'') df) \<and>
        set (map fst (mean_age_items d)) \<subseteq> {''Fencing'', ''Other sports''} \<and>
        map_of (mean_age_items d) ''Fencing'' =
          (if filter (\<lambda>r. NOC r = ''ITA'' \<and> Sport r = ''Fencing'') df = [] then None
           else Some (round1 (of_nat (sum_list (map (\<lambda>r. unat (Age r))
                         (filter (\<lambda>r. NOC r = ''ITA'' \<and> Sport r = ''Fencing'') df)))
                 / of_nat (length (filter (\<lambda>r. NOC r = ''ITA'' \<and> Sport r = ''Fencing'') df))))) \<and>
        map_of (mean_age_items d) ''Other sports'' =
          (if filter (\<lambda>r. NOC r = ''ITA'' \<and> Sport r \<noteq> ''Fencing'') df = [] then None
           else Some (round1 (of_nat (sum_list (map (\<lambda>r. unat (Age r))
                         (filter (\<lambda>r. NOC r = ''ITA'' \<and> Sport r \<noteq> ''Fencing'') df)))
                 / of_nat (length (filter (\<lambda>r. NOC r = ''ITA'' \<and> Sport r \<noteq> ''Fencing'') df))))))"
proof (intro conjI allI impI ballI)
  show "length df = length raw"
    by (rule clean_Inr(1) [OF assms])
next
  fix i assume "i < length raw"
  from clean_Inr(2) [OF assms this]
  show "truncated_uint8 (map Age raw) (Age (raw ! i)) (Age (df ! i))"
    "truncated_uint8 (map Height raw) (Height (raw ! i)) (Height (df ! i))"
    "truncated_uint8 (map Weight raw) (Weight (raw ! i)) (Weight (df ! i))"
    by simp_all
next
  fix r assume "r \<in> set df"
  show "uint (Age r) \<in> {0..255}" "uint (Height r) \<in> {0..255}" "uint (Weight r) \<in> {0..255}"
    by (rule uint8_range)+
next
  fix d assume "script raw = Inr d"
  with assms have d: "d = figures df"
    by (auto dest: script_Inr)
  show "fig_age_hist d = map Age (filter (\<lambda>r. NOC r = ''ITA'') df)"
    by (simp add: d figures_def ita_def)
  show "fig_age_fencing_vs_others d =
          map (\<lambda>r. (''Fencing'', Age r)) (filter (\<lambda>r. NOC r = ''ITA'' \<and> Sport r = ''Fencing'') df)
          @ map (\<lambda>r. (''Other sports'', Age r))
              (filter (\<lambda>r. NOC r = ''ITA'' \<and> Sport r \<noteq> ''Fencing'') df)"
    by (simp add: d figures_def age_compare_def ita_def conj_commute)
  show "set (map fst (mean_age_items d)) \<subseteq> {''Fencing'', ''Other sports''}"
    unfolding d figures_def using mean_age_groups [of df] by simp
  show "map_of (mean_age_items d) ''Fencing'' =
          (if filter (\<lambda>r. NOC r = ''ITA'' \<and> Sport r = ''Fencing'') df = [] then None
           else Some (round1 (of_nat (sum_list (map (\<lambda>r. unat (Age r))
                         (filter (\<lambda>r. NOC r = ''ITA'' \<and> Sport r = ''Fencing'') df)))
                 / of_nat (length (filter (\<lambda>r. NOC r = ''ITA'' \<and> Sport r = ''Fencing'') df)))))"
    unfolding d figures_def using mean_age_fencing [of df] by simp
  show "map_of (mean_age_items d) ''Other sports'' =
          (if filter (\<lambda>r. NOC r = ''ITA'' \<and> Sport r \<noteq> ''Fencing'') df = [] then None
           else Some (round1 (of_nat (sum_list (map (\<lambda>r. unat (Age r))
                         (filter (\<lambda>r. NOC r = ''ITA'' \<and> Sport r \<noteq> ''Fencing'') df)))
                 / of_nat (length (filter (\<lambda>r. NOC r = ''ITA'' \<and> Sport r \<noteq> ''Fencing'') df)))))"
    unfolding d figures_def using mean_age_others [of df] by simp
qed

text \<open>
  In the frame with gaps the age median is 26.5 and the rower without an age gets 26;
  the weight 62.5 becomes 62; the mean age of the other sports is 26, not 26.5.
\<close>

theorem cleaned_numbers_are_truncated_uint8_witness:
  "clean squad_raw = Inr squad \<and> script squad_raw = Inr (figures squad) \<and>
   Age (squad_raw ! 3) = NaN \<and> median (map number (map Age squad_raw)) = Some (53 / 2) \<and>
   Age (squad ! 3) = 26 \<and>
   Weight (squad_raw ! 0) = Decimal (125 / 2) \<and> Weight (squad ! 0) = 62 \<and>
   map_of (mean_age_items (figures squad)) ''Other sports'' = Some 26 \<and>
   mean_age_items (figures squad) = [(''Fencing'', 243 / 10), (''Other sports'', 26)]"
proof -
  have i: "(3::nat) < length squad_raw" and n: "Age (squad_raw ! 3) = NaN"
    and w: "Weight (squad_raw ! 0) = Decimal (125 / 2)" "Weight (squad ! 0) = 62"
    by (simp_all add: squad_raw_def squad_def)
  note inst = cleaned_numbers_are_truncated_uint8 [OF clean_squad]
  from inst i have "truncated_uint8 (map Age squad_raw) (Age (squad_raw ! 3)) (Age (squad ! 3))"
    by blast
  then obtain a where a: "number (fillna (median (map number (map Age squad_raw))) NaN) = Some a"
    "0 \<le> a \<and> a < 256 \<longrightarrow> uint (Age (squad ! 3)) = \<lfloor>a\<rfloor>"
    unfolding truncated_uint8_def n by blast
  from a(1) have "number (Decimal (53 / 2)) = Some a"
    by (simp only: median_squad(1) fillna_def reading.case option.case)
  then have a': "a = 53 / 2"
    by simp
  from a(2) have "uint (Age (squad ! 3)) = \<lfloor>53 / 2 :: rat\<rfloor>"
    unfolding a' by simp
  then have "uint (Age (squad ! 3)) = 26"
    by (simp add: floor_numeral_div)
  then have "(word_of_int (uint (Age (squad ! 3))) :: 8 word) = word_of_int 26"
    by (rule arg_cong)
  then have age: "Age (squad ! 3) = 26"
    by simp
  from inst script_squad have "map_of (mean_age_items (figures squad)) ''Other sports'' =
          (if filter (\<lambda>r. NOC r = ''ITA'' \<and> Sport r \<noteq> ''Fencing'') squad = [] then None
           else Some (round1 (of_nat (sum_list (map (\<lambda>r. unat (Age r))
                         (filter (\<lambda>r. NOC r = ''ITA'' \<and> Sport r \<noteq> ''Fencing'') squad)))
                 / of_nat (length (filter (\<lambda>r. NOC r = ''ITA'' \<and> Sport r \<noteq> ''Fencing'') squad)))))"
    by blast
  also have "\<dots> = Some 26"
    by (simp add: squad_def round1_def rint_def)
  finally have others: "map_of (mean_age_items (figures squad)) ''Other sports'' = Some 26" .
  have items: "mean_age_items (figures squad) = [(''Fencing'', 243 / 10), (''Other sports'', 26)]"
    by (simp add: figures_def mean_age_squad)
  from clean_squad script_squad n median_squad(1) age w others items show ?thesis
    by simp
qed

lemma imputed_cell:
  assumes "truncated_uint8 col x w" and "x \<in> set col"
  shows "x = NaN \<longrightarrow>
      (\<exists>m. is_median (present col) m \<and> fillna (median (map number col)) x = Decimal m \<and>
           w = float_to_uint8 m)"
    and "x \<noteq> NaN \<longrightarrow> fillna (median (map number col)) x = x"
proof -
  show "x \<noteq> NaN \<longrightarrow> fillna (median (map number col)) x = x"
    by (cases x) (simp_all add: fillna_def)
  show "x = NaN \<longrightarrow>
      (\<exists>m. is_median (present col) m \<and> fillna (median (map number col)) x = Decimal m \<and>
           w = float_to_uint8 m)"
  proof
    assume x: "x = NaN"
    have "whole NaN = None" by simp
    with assms(2) x have "\<exists>y \<in> set col. whole y = None" by blast
    then have "\<not> is_int64 col"
      by (simp add: is_int64_def list_all_iff)
    with assms(1) obtain a where
      a: "number (fillna (median (map number col)) NaN) = Some a" "w = float_to_uint8 a"
      unfolding truncated_uint8_def x by auto
    from a(1) have m: "median (map number col) = Some a"
      by (cases "median (map number col)") (simp_all add: fillna_def)
    then have "is_median (present col) a"
      by (rule median_present)
    moreover from m have "fillna (median (map number col)) NaN = Decimal a"
      by (simp add: fillna_def)
    ultimately show "\<exists>m. is_median (present col) m \<and>
        fillna (median (map number col)) x = Decimal m \<and> w = float_to_uint8 m"
      using a(2) x by blast
  qed
qed

lemma filled_squad: "Age (fillna_medians squad_raw ! 3) = Decimal (53 / 2)"
  by code_simp

lemma present_squad: "present (map Age squad_raw) = [20, 23, 30, 41]"
  by (simp add: squad_raw_def present_def map_filter_simps)

text \<open>
  Claim C5. When the cleaning step succeeds, every missing \<open>Age\<close>, \<open>Height\<close> and \<open>Weight\<close>
  has been filled with the median of the present values of that column over all rows of
  the input, whatever their country or sport: the mean of the lower and the upper middle
  value in order. Every cell that was present is kept by the filling. The cast then
  leaves the 8-bit value of the median. Every missing medal has become the string
  \<open>None\<close> and every other medal is unchanged. The script cleans once: whatever it hands
  to its charts is built from the one cleaned frame.
\<close>

theorem clean_imputes_global_median:
  assumes "clean raw = Inr df"
  shows "length df = length raw \<and>
    (\<forall>i < length raw.
       (Age (raw ! i) = NaN \<longrightarrow>
          (\<exists>m. is_median (present (map Age raw)) m \<and>
               Age (fillna_medians raw ! i) = Decimal m \<and> Age (df ! i) = float_to_uint8 m)) \<and>
       (Height (raw ! i) = NaN \<longrightarrow>
          (\<exists>m. is_median (present (map Height raw)) m \<and>
               Height (fillna_medians raw ! i) = Decimal m \<and> Height (df ! i) = float_to_uint8 m)) \<and>
       (Weight (raw ! i) = NaN \<longrightarrow>
          (\<exists>m. is_median (present (map Weight raw)) m \<and>
               Weight (fillna_medians raw ! i) = Decimal m \<and> Weight (df ! i) = float_to_uint8 m)) \<and>
       (Age (raw ! i) \<noteq> NaN \<longrightarrow> Age (fillna_medians raw ! i) = Age (raw ! i)) \<and>
       (Height (raw ! i) \<noteq> NaN \<longrightarrow> Height (fillna_medians raw ! i) = Height (raw ! i)) \<and>
       (Weight (raw ! i) \<noteq> NaN \<longrightarrow> Weight (fillna_medians raw ! i) = Weight (raw ! i)) \<and>
       Medal (df ! i) = (case Medal (raw ! i) of None \<Rightarrow> ''None'' | Some m \<Rightarrow> m)) \<and>
    (\<forall>d. script raw = Inr d \<longrightarrow> d = figures df)"
proof (intro conjI allI impI)
  show "length df = length raw"
    by (rule clean_Inr(1) [OF assms])
next
  fix d assume "script raw = Inr d"
  with assms show "d = figures df"
    by (auto dest: script_Inr)
next
  fix i assume i: "i < length raw"
  note row = clean_Inr(2) [OF assms i]
  have cells: "Age (raw ! i) \<in> set (map Age raw)" "Height (raw ! i) \<in> set (map Height raw)"
    "Weight (raw ! i) \<in> set (map Weight raw)"
    using i by simp_all
  have filled: "Age (fillna_medians raw ! i) = fillna (median (map number (map Age raw))) (Age (raw ! i))"
    "Height (fillna_medians raw ! i) = fillna (median (map number (map Height raw))) (Height (raw ! i))"
    "Weight (fillna_medians raw ! i) = fillna (median (map number (map Weight raw))) (Weight (raw ! i))"
    using i by (simp_all add: fillna_medians_nth(5))
  from row have a: "truncated_uint8 (map Age raw) (Age (raw ! i)) (Age (df ! i))"
    and h: "truncated_uint8 (map Height raw) (Height (raw ! i)) (Height (df ! i))"
    and w: "truncated_uint8 (map Weight raw) (Weight (raw ! i)) (Weight (df ! i))"
    and medal: "Medal (df ! i) = fillna_medal (Medal (raw ! i))"
    by simp_all
  show "Medal (df ! i) = (case Medal (raw ! i) of None \<Rightarrow> ''None'' | Some m \<Rightarrow> m)"
    unfolding medal by (simp add: fillna_medal_def)
  {
    assume "Age (raw ! i) = NaN"
    with imputed_cell(1) [OF a cells(1)]
    show "\<exists>m. is_median (present (map Age raw)) m \<and>
               Age (fillna_medians raw ! i) = Decimal m \<and> Age (df ! i) = float_to_uint8 m"
      unfolding filled by blast
  }
  {
    assume "Height (raw ! i) = NaN"
    with imputed_cell(1) [OF h cells(2)]
    show "\<exists>m. is_median (present (map Height raw)) m \<and>
               Height (fillna_medians raw ! i) = Decimal m \<and> Height (df ! i) = float_to_uint8 m"
      unfolding filled by blast
  }
  {
    assume "Weight (raw ! i) = NaN"
    with imputed_cell(1) [OF w cells(3)]
    show "\<exists>m. is_median (present (map Weight raw)) m \<and>
               Weight (fillna_medians raw ! i) = Decimal m \<and> Weight (df ! i) = float_to_uint8 m"
      unfolding filled by blast
  }
  {
    assume "Age (raw ! i) \<noteq> NaN"
    with imputed_cell(2) [OF a cells(1)]
    show "Age (fillna_medians raw ! i) = Age (raw ! i)"
      unfolding filled by blast
  }
  {
    assume "Height (raw ! i) \<noteq> NaN"
    with imputed_cell(2) [OF h cells(2)]
    show "Height (fillna_medians raw ! i) = Height (raw ! i)"
      unfolding filled by blast
  }
  {
    assume "Weight (raw ! i) \<noteq> NaN"
    with imputed_cell(2) [OF w cells(3)]
    show "Weight (fillna_medians raw ! i) = Weight (raw ! i)"
      unfolding filled by blast
  }
qed

text \<open>
  In the frame with gaps the present ages are 20, 23, 30 and 41: their median is 26.5,
  their mean 28.5, and the median of the Italian ages alone is 23. The Italian rower
  without an age is filled with 26.5 and holds 26 after the cast; his missing medal has
  become \<open>None\<close>.
\<close>

theorem clean_imputes_global_median_witness:
  "clean squad_raw = Inr squad \<and> script squad_raw = Inr (figures squad) \<and>
   Age (squad_raw ! 3) = NaN \<and> Medal (squad_raw ! 3) = None \<and>
   present (map Age squad_raw) = [20, 23, 30, 41] \<and>
   is_median [20, 23, 30, 41] (53 / 2) \<and>
   sum_list [20, 23, 30, 41 :: rat] / 4 = 57 / 2 \<and>
   median (map number (map Age (filter (\<lambda>r. NOC r = ''ITA'') squad_raw))) = Some 23 \<and>
   Age (fillna_medians squad_raw ! 3) = Decimal (53 / 2) \<and> Age (squad ! 3) = 26 \<and>
   Medal (squad ! 3) = ''None''"
proof -
  have i: "(3::nat) < length squad_raw"
    and n: "Age (squad_raw ! 3) = NaN" "Medal (squad_raw ! 3) = None"
    by (simp_all add: squad_raw_def)
  note inst = clean_imputes_global_median [OF clean_squad]
  from inst i n(1) obtain m where
    m: "is_median (present (map Age squad_raw)) m" "Age (fillna_medians squad_raw ! 3) = Decimal m"
      "Age (squad ! 3) = float_to_uint8 m"
    by blast
  from m(2) have m': "m = 53 / 2"
    by (simp only: filled_squad reading.inject)
  from m(1) have med: "is_median [20, 23, 30, 41] (53 / 2)"
    unfolding m' present_squad .
  from m(3) have age: "Age (squad ! 3) = 26"
    unfolding m' by (simp add: float_to_uint8_def floor_numeral_div)
  from inst i n(2) have medal: "Medal (squad ! 3) = ''None''"
    by simp
  have mean: "sum_list [20, 23, 30, 41 :: rat] / 4 = 57 / 2"
    by simp
  from clean_squad script_squad n present_squad med mean median_squad(2) filled_squad age medal
  show ?thesis by simp
qed

section \<open>The pivot and its chart\<close>

lemma map_of_set_column:
  "map_of (set_column c v cells) c' = (if c' = c then Some v else map_of cells c')"
  by (induction cells) auto

lemma map_of_pivot_table:
  "map_of (pivot_table rs) y =
     (if y \<in> Year ` set rs
      then Some (map (\<lambda>c. (c, length (filter (\<lambda>r. Year r = y \<and> Medal r = c) rs)))
                  (pivot_columns rs))
      else None)"
  by (simp add: pivot_table_def pivot_columns_def map_of_map_restrict restrict_map_def)

lemma map_of_with_total:
  "map_of (with_total tbl) y =
     map_option (\<lambda>cells. set_column ''Total''
        (sum_list (map snd (filter (\<lambda>(c, n). c \<in> set [''Gold'', ''Silver'', ''Bronze'']) cells)))
        cells) (map_of tbl y)"
  unfolding with_total_def by (induction tbl) auto

lemma map_of_cells:
  "map_of (map (\<lambda>c. (c, f c)) cols) c = (if c \<in> set cols then Some (f c) else None)"
  by (simp add: map_of_map_restrict restrict_map_def)

lemma tier_sum:
  fixes f :: "string \<Rightarrow> nat"
  assumes "distinct cols" and "\<forall>c. c \<notin> set cols \<longrightarrow> f c = 0"
  shows "sum_list (map snd (filter (\<lambda>(c, n). c \<in> set [''Gold'', ''Silver'', ''Bronze''])
           (map (\<lambda>c. (c, f c)) cols)))
         = f ''Gold'' + f ''Silver'' + f ''Bronze''"
proof -
  let ?T = "{''Gold'', ''Silver'', ''Bronze''}"
  have "sum_list (map snd (filter (\<lambda>(c, n). c \<in> set [''Gold'', ''Silver'', ''Bronze''])
           (map (\<lambda>c. (c, f c)) cols)))
        = sum_list (map f (filter (\<lambda>c. c \<in> ?T) cols))"
    by (simp add: filter_map comp_def)
  also have "\<dots> = sum f (set (filter (\<lambda>c. c \<in> ?T) cols))"
    using assms(1) by (intro sum_list_distinct_conv_sum_set) simp
  also have "set (filter (\<lambda>c. c \<in> ?T) cols) = set cols \<inter> ?T"
    by auto
  also have "sum f (set cols \<inter> ?T) = sum f ?T"
    using assms(2) by (intro sum.mono_neutral_left) auto
  also have "\<dots> = f ''Gold'' + f ''Silver'' + f ''Bronze''"
    by simp
  finally show ?thesis .
qed

lemma pivot_years:
  "map fst (pivotByYearAndMedalTier rs) = sort_key sint (remdups (map Year rs))"
  by (simp add: pivotByYearAndMedalTier_def with_total_def pivot_table_def pivot_columns_def comp_def
      case_prod_unfold)

lemma pivot_cell:
  assumes "y \<in> Year ` set rs"
  shows "cell (pivotByYearAndMedalTier rs) y c =
     (if c = ''Total''
      then Some (length (filter (\<lambda>r. Year r = y \<and> Medal r = ''Gold'') rs)
               + length (filter (\<lambda>r. Year r = y \<and> Medal r = ''Silver'') rs)
               + length (filter (\<lambda>r. Year r = y \<and> Medal r = ''Bronze'') rs))
      else if c \<in> Medal ` set rs
      then Some (length (filter (\<lambda>r. Year r = y \<and> Medal r = c) rs))
      else None)"
proof -
  let ?f = "\<lambda>c. length (filter (\<lambda>r. Year r = y \<and> Medal r = c) rs)"
  let ?cols = "pivot_columns rs"
  have zero: "\<forall>c. c \<notin> set ?cols \<longrightarrow> ?f c = 0"
    by (auto simp: pivot_columns_def filter_empty_conv)
  have total: "sum_list (map snd (filter (\<lambda>(c, n). c \<in> set [''Gold'', ''Silver'', ''Bronze''])
           (map (\<lambda>c. (c, ?f c)) ?cols))) = ?f ''Gold'' + ?f ''Silver'' + ?f ''Bronze''"
    by (rule tier_sum [OF _ zero]) (simp add: pivot_columns_def)
  have "cell (pivotByYearAndMedalTier rs) y c =
      map_of (set_column ''Total'' (?f ''Gold'' + ?f ''Silver'' + ?f ''Bronze'')
                (map (\<lambda>c. (c, ?f c)) ?cols)) c"
    using assms
    by (simp only: cell_def pivotByYearAndMedalTier_def map_of_with_total map_of_pivot_table
        if_True option.map option.case total)
  also have "\<dots> = (if c = ''Total'' then Some (?f ''Gold'' + ?f ''Silver'' + ?f ''Bronze'')
      else if c \<in> Medal ` set rs then Some (?f c) else None)"
    by (simp only: map_of_set_column map_of_cells pivot_columns_def set_sort set_remdups set_map)
  finally show ?thesis .
qed

lemma dedupMedals_no_medal:
  "\<forall>r \<in> set rs. Medal r = ''None'' \<Longrightarrow> dedupMedals rs = []"
  by (simp add: dedupMedals_def drop_duplicates_def)

lemma clean_no_medals: "clean no_medals_raw = Inr no_medals"
  by code_simp

lemma fencing_unique_medals_no_medals: "fencing_unique_medals no_medals = []"
  by (simp add: no_medals_def fencing_unique_medals_def fencing_def ita_def dedupMedals_def
      drop_duplicates_def)

lemma script_after_clean:
  assumes "clean raw = Inr df"
  shows "script raw =
     (if {''Gold'', ''Silver'', ''Bronze''} \<subseteq> Medal ` set (fencing_unique_medals df)
      then Inr (figures df) else Inl ValueError)"
  using assms by (simp add: script_def pivot_columns_def)

lemma script_fails_without_fencing_medal:
  assumes "clean raw = Inr df"
    and "\<forall>r \<in> set df. NOC r = ''ITA'' \<and> Sport r = ''Fencing'' \<longrightarrow> Medal r = ''None''"
  shows "script raw = Inl ValueError"
proof -
  from assms(2) have "\<forall>r \<in> set (fencing df). Medal r = ''None''"
    by (simp add: fencing_def ita_def)
  then have "fencing_unique_medals df = []"
    unfolding fencing_unique_medals_def by (rule dedupMedals_no_medal)
  then show ?thesis
    by (simp add: script_after_clean [OF assms(1)])
qed

lemma medals_by_type_team_final: "medals_by_type team_final = [(2004, [(''Gold'', 1)])]"
  unfolding medals_by_type_def fencing_unique_medals_team_final
  by (simp add: team_final_def pivot_table_def pivot_columns_def)

text \<open>
  When the script runs through, the pivot it charts is complete: its rows are the years
  of the Italian fencing medals, every year has a Gold, a Silver and a Bronze cell with
  the number of such medals, 0 where there is none, and the \<open>Total\<close> of a year is their
  sum.
\<close>

lemma pivot_complete_when_charted:
  assumes "script raw = Inr d"
  shows "\<exists>df. clean raw = Inr df \<and>
    set (map fst (fig_fencing_total_medals d)) = Year ` set (fencing_unique_medals df) \<and>
    (\<forall>r \<in> set (fencing_unique_medals df). \<forall>c \<in> {''Gold'', ''Silver'', ''Bronze''}.
       cell (fig_fencing_total_medals d) (Year r) c =
         Some (length (filter (\<lambda>s. Year s = Year r \<and> Medal s = c) (fencing_unique_medals df)))) \<and>
    (\<forall>r \<in> set (fencing_unique_medals df).
       cell (fig_fencing_total_medals d) (Year r) ''Total'' =
         Some (length (filter (\<lambda>s. Year s = Year r \<and> Medal s = ''Gold'') (fencing_unique_medals df))
             + length (filter (\<lambda>s. Year s = Year r \<and> Medal s = ''Silver'') (fencing_unique_medals df))
             + length (filter (\<lambda>s. Year s = Year r \<and> Medal s = ''Bronze'') (fencing_unique_medals df))))"
proof -
  from script_Inr [OF assms] obtain df where
    df: "clean raw = Inr df" "d = figures df"
    and tiers: "set [''Gold'', ''Silver'', ''Bronze''] \<subseteq> set (pivot_columns (fencing_unique_medals df))"
    by blast
  let ?rs = "fencing_unique_medals df"
  have table: "fig_fencing_total_medals d = pivotByYearAndMedalTier ?rs"
    by (simp add: df(2) figures_def)
  from tiers have present: "\<forall>c \<in> {''Gold'', ''Silver'', ''Bronze''}. c \<in> Medal ` set ?rs"
    by (simp add: pivot_columns_def)
  have years: "set (map fst (fig_fencing_total_medals d)) = Year ` set ?rs"
    unfolding table pivot_years by simp
  have tier_cells: "\<forall>r \<in> set ?rs. \<forall>c \<in> {''Gold'', ''Silver'', ''Bronze''}.
       cell (fig_fencing_total_medals d) (Year r) c =
         Some (length (filter (\<lambda>s. Year s = Year r \<and> Medal s = c) ?rs))"
    unfolding table using present by (auto simp: pivot_cell)
  have totals: "\<forall>r \<in> set ?rs.
       cell (fig_fencing_total_medals d) (Year r) ''Total'' =
         Some (length (filter (\<lambda>s. Year s = Year r \<and> Medal s = ''Gold'') ?rs)
             + length (filter (\<lambda>s. Year s = Year r \<and> Medal s = ''Silver'') ?rs)
             + length (filter (\<lambda>s. Year s = Year r \<and> Medal s = ''Bronze'') ?rs))"
    unfolding table by (simp add: pivot_cell)
  from df(1) years tier_cells totals show ?thesis by blast
qed

text \<open>
  Claim C2, where the code departs from it. The pivot has a column only for a medal that
  occurs, so in the end-to-end example, which has gold only, the Silver and Bronze cells
  of 2004 do not exist. The chart of lines 196 to 199 names all three columns and raises,
  so the script ends before line 215 adds the \<open>Total\<close>; lines 211 to 214, which sum only
  the tier columns that exist, are never reached with a column missing.
\<close>

theorem script_fails_on_absent_tier:
  "clean team_final_raw = Inr team_final \<and>
   pivot_columns (fencing_unique_medals team_final) = [''Gold''] \<and>
   medals_by_type team_final = [(2004, [(''Gold'', 1)])] \<and>
   cell (medals_by_type team_final) 2004 ''Gold'' = Some 1 \<and>
   cell (medals_by_type team_final) 2004 ''Silver'' = None \<and>
   cell (medals_by_type team_final) 2004 ''Bronze'' = None \<and>
   script team_final_raw = Inl ValueError"
proof -
  have cols: "pivot_columns (fencing_unique_medals team_final) = [''Gold'']"
    unfolding fencing_unique_medals_team_final
    by (simp add: team_final_def pivot_columns_def)
  have "script team_final_raw = Inl ValueError"
    by (simp add: script_def clean_team_final cols)
  moreover have "cell (medals_by_type team_final) 2004 ''Gold'' = Some 1"
    "cell (medals_by_type team_final) 2004 ''Silver'' = None"
    "cell (medals_by_type team_final) 2004 ''Bronze'' = None"
    unfolding medals_by_type_team_final by (simp_all add: cell_def)
  ultimately show ?thesis
    using clean_team_final cols medals_by_type_team_final by simp
qed

text \<open>
  Claim C9, where the code departs from it. With an Italian fencer who has no medal the
  ranking of the medals by sport is built and is empty, and so are the fencing medal rows
  and the pivot, which then has no column at all. The same chart call raises on it, so
  the script ends there and builds neither the medals by event nor what follows.
\<close>

theorem script_fails_on_empty_fencing_medals:
  "clean no_medals_raw = Inr no_medals \<and>
   head 10 (medals_by_sport no_medals) = [] \<and>
   fencing_unique_medals no_medals = [] \<and>
   medals_by_type no_medals = [] \<and>
   pivot_columns (fencing_unique_medals no_medals) = [] \<and>
   script no_medals_raw = Inl ValueError"
proof -
  have "head 10 (medals_by_sport no_medals) = []"
    by (simp add: no_medals_def head_def medals_by_sport_def groupCount_def groupby_count_def
        sort_values_desc_def ita_medals_unique_def ita_def dedupMedals_def drop_duplicates_def)
  moreover have "medals_by_type no_medals = []"
    "pivot_columns (fencing_unique_medals no_medals) = []"
    by (simp_all add: medals_by_type_def fencing_unique_medals_no_medals pivot_table_def
        pivot_columns_def)
  moreover have "script no_medals_raw = Inl ValueError"
    by (simp add: script_after_clean [OF clean_no_medals] fencing_unique_medals_no_medals)
  ultimately show ?thesis
    using clean_no_medals fencing_unique_medals_no_medals by simp
qed

section \<open>Cleaning a cleaned frame again\<close>

lemma word_of_int_sint_id: "word_of_int (sint w) = (w :: 'a::len word)"
  by simp

lemma word_of_int_uint_id: "word_of_int (uint w) = (w :: 'a::len word)"
  by simp

lemma fillna_medians_as_raw: "fillna_medians (map as_raw df) = map as_raw df"
  by (simp add: fillna_medians_def Let_def fillna_def as_raw_def)

lemma astype_uint8_of_uint8:
  "astype_uint8 (map (\<lambda>r. Whole (uint (f r))) df) = Inr (map f df)"
proof -
  have col: "map whole (map (\<lambda>r. Whole (uint (f r))) df) = map Some (map (\<lambda>r. uint (f r)) df)"
    by (simp add: comp_def)
  have same: "map word_of_int (map (\<lambda>r. uint (f r)) df) = map f df"
    by (simp only: map_map comp_def word_of_int_uint_id)
  show ?thesis
    by (simp only: astype_uint8_def col those_map_Some option.case same)
qed

lemma zip_columns:
  "map g (zip (map f df) (zip (map a df) (zip (map h df) (map w df))))
     = map (\<lambda>r. g (f r, a r, h r, w r)) df"
  by (induction df) simp_all

lemma astype_as_raw:
  "astype (map as_raw df) =
     Inr (map (\<lambda>r. \<lparr>ID = ID r, Name = Some (Name r), Sex = Sex r,
                      Age = Age r, Height = Height r, Weight = Weight r,
                      NOC = NOC r, Games = Games r, Year = Year r,
                      Season = Season r, Sport = Sport r, Event = Event r,
                      Medal = Some (Medal r)\<rparr>) df)"
proof -
  have cols: "map Age (map as_raw df) = map (\<lambda>r. Whole (uint (Age r))) df"
    "map Height (map as_raw df) = map (\<lambda>r. Whole (uint (Height r))) df"
    "map Weight (map as_raw df) = map (\<lambda>r. Whole (uint (Weight r))) df"
    by (simp_all add: as_raw_def)
  show ?thesis
    unfolding astype_def cols astype_uint8_of_uint8
    by (simp add: zip_columns as_raw_def)
qed

lemma clean_as_raw:
  "clean (map as_raw df) = Inr (map (\<lambda>r. r\<lparr>Name := sha256_hexdigest (Name r)\<rparr>) df)"
  unfolding clean_def fillna_medians_as_raw astype_as_raw
  by (simp add: finish_row_def anonymise_def str_def fillna_medal_def)

lemma digest_of_digest:
  "sha256_hexdigest ''ca978112ca1bbdcafac231b39a23dc4da786eff8147c4e72b9807785afee48bb''
     = ''da3811154d59c4267077ddd8bb768fa9b06399c486e1fc00485116b57c9872f5''"
  by code_simp

text \<open>
  Claim C4, as the code has it. Running the cleaning step on an already cleaned frame
  succeeds and leaves every column but \<open>Name\<close> as it was: nothing is missing any more, so
  no median and no sentinel is filled in, and the casts of the integer columns change
  nothing. The name is
  digested again, so each \<open>Name\<close> becomes the SHA-256 digest of the previous digest.
\<close>

theorem clean_again_rehashes_names:
  "clean (map as_raw df) = Inr (map (\<lambda>r. r\<lparr>Name := sha256_hexdigest (Name r)\<rparr>) df)"
  by (rule clean_as_raw)

text \<open>
  The cleaned end-to-end example, cleaned again: the first name becomes the digest of its
  digest, ages and medals stay.
\<close>

theorem clean_again_rehashes_names_witness:
  "clean team_final_raw = Inr team_final \<and>
   (\<exists>df. clean (map as_raw team_final) = Inr df \<and>
     Name (hd df) = ''da3811154d59c4267077ddd8bb768fa9b06399c486e1fc00485116b57c9872f5'' \<and>
     map Age df = map Age team_final \<and> map Medal df = map Medal team_final)"
proof -
  let ?df = "map (\<lambda>r. r\<lparr>Name := sha256_hexdigest (Name r)\<rparr>) team_final"
  have "Name (hd ?df) = sha256_hexdigest (Name (hd team_final))"
    by (simp add: team_final_def)
  also have "\<dots> = ''da3811154d59c4267077ddd8bb768fa9b06399c486e1fc00485116b57c9872f5''"
    by (simp add: team_final_def digest_of_digest)
  finally have "Name (hd ?df) = ''da3811154d59c4267077ddd8bb768fa9b06399c486e1fc00485116b57c9872f5''" .
  moreover have "map Age ?df = map Age team_final" "map Medal ?df = map Medal team_final"
    by (simp_all add: comp_def)
  ultimately show ?thesis
    using clean_again_rehashes_names [of team_final] clean_team_final by blast
qed

text \<open>
  The end-to-end example is the outcome of the cleaning step; cleaning it again does not
  give it back, because the names change.
\<close>

theorem clean_not_idempotent_counterexample:
  "clean team_final_raw = Inr team_final \<and> clean (map as_raw team_final) \<noteq> Inr team_final"
proof -
  have "Name (hd (map (\<lambda>r. r\<lparr>Name := sha256_hexdigest (Name r)\<rparr>) team_final))
      = sha256_hexdigest (Name (hd team_final))"
    by (simp add: team_final_def)
  also have "\<dots> = ''da3811154d59c4267077ddd8bb768fa9b06399c486e1fc00485116b57c9872f5''"
    by (simp add: team_final_def digest_of_digest)
  finally have "Name (hd (map (\<lambda>r. r\<lparr>Name := sha256_hexdigest (Name r)\<rparr>) team_final))
      \<noteq> Name (hd team_final)"
    by (simp add: team_final_def)
  then have "map (\<lambda>r. r\<lparr>Name := sha256_hexdigest (Name r)\<rparr>) team_final \<noteq> team_final"
    by metis
  then show ?thesis
    by (simp add: clean_as_raw clean_team_final)
qed

end
